theory Spec2Isabelle
  imports Main "HOL-Library.Word"
begin

unbundle bit_operations_syntax

section \<open>Guardfin: client-side envelope, local store, sync scheduler and server store\<close>

text \<open>
  The development embeds the parts of \<^verbatim>\<open>client/app.js\<close> (classes \<^verbatim>\<open>SecureCrypto\<close> and
  \<^verbatim>\<open>Database\<close>) and of \<^verbatim>\<open>server/server.js\<close> (\<^verbatim>\<open>validateSyncData\<close> and the
  \<^verbatim>\<open>POST /api/sync\<close> handler) that the specification talks about.

  The browser and Node.js primitives the code calls (WebCrypto, \<^verbatim>\<open>JSON\<close>, \<^verbatim>\<open>TextEncoder\<close>)
  are not part of the repository. They are passed to the model as the fields of a record
  of functions, and every theorem says which of their contracts it relies on.
\<close>

subsection \<open>Values\<close>

type_synonym byte = "8 word"
type_synonym int32 = "32 word"

text \<open>JSON values as \<^verbatim>\<open>JSON.parse\<close> produces them; object fields keep their order.\<close>

datatype json =
    JNull
  | JBool bool
  | JNum int
  | JStr string
  | JArr "json list"
  | JObj "(string \<times> json) list"

text \<open>
  \<^verbatim>\<open>Array.from(uint8array)\<close> yields the bytes as numbers; \<^verbatim>\<open>new Uint8Array(array)\<close>
  stores every number modulo 256.
\<close>

definition Array_from :: "byte list \<Rightarrow> int list" where
  "Array_from bs = map uint bs"

definition new_Uint8Array :: "int list \<Rightarrow> byte list" where
  "new_Uint8Array ns = map word_of_int ns"

subsection \<open>The platform\<close>

text \<open>
  \<^item> \<open>deriveBits\<close>: \<^verbatim>\<open>crypto.subtle.deriveBits\<close> with PBKDF2, SHA-256, 250000 iterations,
    256 bits, as \<^verbatim>\<open>createVerifier\<close> calls it;
  \<^item> \<open>deriveKey_subtle\<close>: \<^verbatim>\<open>crypto.subtle.deriveKey\<close> with the same parameters, for AES-GCM;
  \<^item> \<open>gcm_encrypt\<close>, \<open>gcm_decrypt\<close>: \<^verbatim>\<open>crypto.subtle.encrypt/decrypt\<close> with AES-GCM, taking
    key, iv and input; decryption rejects (\<open>None\<close>) when authentication fails;
  \<^item> \<open>JSON_stringify\<close>, \<open>JSON_parse\<close>: \<open>None\<close> is the \<^verbatim>\<open>SyntaxError\<close> of \<^verbatim>\<open>JSON.parse\<close>;
  \<^item> \<open>text_encode\<close>, \<open>text_decode\<close>: \<^verbatim>\<open>TextEncoder.encode\<close> and \<^verbatim>\<open>TextDecoder.decode\<close>.
\<close>

record 'k platform =
  deriveBits :: "string \<Rightarrow> byte list \<Rightarrow> byte list"
  deriveKey_subtle :: "string \<Rightarrow> byte list \<Rightarrow> 'k"
  gcm_encrypt :: "'k \<Rightarrow> byte list \<Rightarrow> byte list \<Rightarrow> byte list"
  gcm_decrypt :: "'k \<Rightarrow> byte list \<Rightarrow> byte list \<Rightarrow> byte list option"
  JSON_stringify :: "json \<Rightarrow> string"
  JSON_parse :: "string \<Rightarrow> json option"
  text_encode :: "string \<Rightarrow> byte list"
  text_decode :: "byte list \<Rightarrow> string"

subsection \<open>SecureCrypto: key derivation and verifier\<close>

definition createVerifier :: "'k platform \<Rightarrow> string \<Rightarrow> byte list \<Rightarrow> byte list" where
  "createVerifier P passphrase salt = deriveBits P passphrase salt"

definition deriveKey :: "'k platform \<Rightarrow> string \<Rightarrow> byte list \<Rightarrow> 'k" where
  "deriveKey P passphrase salt = deriveKey_subtle P passphrase salt"

text \<open>
  The comparison loop of \<^verbatim>\<open>verifyPassword\<close>:
  \<^verbatim>\<open>for (let i = 0; i < computed.length; i++) result |= computed[i] ^ storedVerifier[i];\<close>
  The operands of \<^verbatim>\<open>^\<close> and \<^verbatim>\<open>|\<close> are 32-bit integers; reading \<^verbatim>\<open>storedVerifier\<close> past
  its end gives \<^verbatim>\<open>undefined\<close>, which \<^verbatim>\<open>^\<close> takes as 0. The function returns the loop
  variables \<open>(i, result)\<close> as they are when the loop is left.
\<close>

function verify_loop :: "byte list \<Rightarrow> byte list \<Rightarrow> nat \<Rightarrow> int32 \<Rightarrow> nat \<times> int32" where
  "verify_loop computed storedVerifier i result =
     (if i < length computed
      then verify_loop computed storedVerifier (Suc i)
             (result OR (ucast (computed ! i) XOR
                (if i < length storedVerifier then ucast (storedVerifier ! i) else 0)))
      else (i, result))"
  by pat_completeness auto
termination
  by (relation "measure (\<lambda>(computed, storedVerifier, i, result). length computed - i)") auto

declare verify_loop.simps [simp del]

definition compare_verifier :: "byte list \<Rightarrow> byte list \<Rightarrow> bool" where
  "compare_verifier computed storedVerifier =
     (if length computed \<noteq> length storedVerifier then False
      else snd (verify_loop computed storedVerifier 0 0) = 0)"

definition verifyPassword :: "'k platform \<Rightarrow> string \<Rightarrow> byte list \<Rightarrow> byte list \<Rightarrow> bool" where
  "verifyPassword P passphrase salt storedVerifier =
     compare_verifier (createVerifier P passphrase salt) storedVerifier"

text \<open>The bitwise OR of the bytewise XORs, written without the loop.\<close>

definition xor_bytes :: "byte list \<Rightarrow> byte list \<Rightarrow> int32 list" where
  "xor_bytes xs ys = map (\<lambda>(x, y). ucast x XOR ucast y) (zip xs ys)"

definition or_all :: "int32 \<Rightarrow> int32 list \<Rightarrow> int32" where
  "or_all r ds = foldl (OR) r ds"

subsection \<open>SecureCrypto: the envelope\<close>

record envelope =
  version :: string
  algorithm :: string
  iv :: "int list"
  data :: "int list"
  timestamp :: int

text \<open>The fields of a \<^verbatim>\<open>SecureCrypto\<close> object; \<open>None\<close> is \<^verbatim>\<open>null\<close>.\<close>

record 'k SecureCrypto =
  key :: "'k option"
  accountId :: "string option"
  salt :: "byte list option"

text \<open>
  The errors the modelled code throws or lets through: the four \<^verbatim>\<open>new Error(...)\<close> of
  \<^verbatim>\<open>SecureCrypto\<close> and \<^verbatim>\<open>Database\<close>, the rejection of \<^verbatim>\<open>crypto.subtle.decrypt\<close>, the
  \<^verbatim>\<open>SyntaxError\<close> of \<^verbatim>\<open>JSON.parse\<close>, the \<^verbatim>\<open>TypeError\<close> of a method call on \<^verbatim>\<open>null\<close>, and
  the errors with which PouchDB rejects: \<^verbatim>\<open>not_found\<close> for a \<^verbatim>\<open>get\<close> of an id that is not
  in the database, \<^verbatim>\<open>conflict\<close> for a \<^verbatim>\<open>put\<close> of an id that is.
\<close>

datatype error =
    No_encryption_key
  | Unsupported_format
  | Invalid_passphrase
  | Not_signed_in
  | OperationError
  | SyntaxError
  | TypeError
  | Pouch_not_found
  | Pouch_conflict

text \<open>
  \<^verbatim>\<open>encrypt(data)\<close>. The random iv (\<^verbatim>\<open>crypto.getRandomValues\<close>) and the clock
  (\<^verbatim>\<open>Date.now()\<close>) are arguments.
\<close>

definition encrypt ::
  "'k platform \<Rightarrow> 'k SecureCrypto \<Rightarrow> byte list \<Rightarrow> int \<Rightarrow> json \<Rightarrow> error + envelope" where
  "encrypt P this fresh_iv now d =
     (case key this of
        None \<Rightarrow> Inl No_encryption_key
      | Some k \<Rightarrow>
          (let encoded = text_encode P (JSON_stringify P d);
               encrypted = gcm_encrypt P k fresh_iv encoded
           in Inr \<lparr>version = ''1.0'', algorithm = ''AES-GCM'', iv = Array_from fresh_iv,
                   data = Array_from encrypted, timestamp = now\<rparr>))"

definition decrypt :: "'k platform \<Rightarrow> 'k SecureCrypto \<Rightarrow> envelope \<Rightarrow> error + json" where
  "decrypt P this obj =
     (case key this of
        None \<Rightarrow> Inl No_encryption_key
      | Some k \<Rightarrow>
          if version obj \<noteq> ''1.0'' \<or> algorithm obj \<noteq> ''AES-GCM'' then Inl Unsupported_format
          else (case gcm_decrypt P k (new_Uint8Array (iv obj)) (new_Uint8Array (data obj)) of
                  None \<Rightarrow> Inl OperationError
                | Some decrypted \<Rightarrow>
                    (case JSON_parse P (text_decode P decrypted) of
                       None \<Rightarrow> Inl SyntaxError
                     | Some v \<Rightarrow> Inr v)))"

definition cleanup :: "'k SecureCrypto \<Rightarrow> 'k SecureCrypto" where
  "cleanup this = this\<lparr>key := None, accountId := None, salt := None\<rparr>"

text \<open>
  The two contracts of the platform the round trip rests on: AES-GCM decryption under the
  key and iv of the encryption returns the plaintext, and a record is JSON-serializable
  when parsing its encoded serialization gives it back.
\<close>

definition gcm_correct :: "'k platform \<Rightarrow> 'k \<Rightarrow> bool" where
  "gcm_correct P k \<longleftrightarrow> (\<forall>n m. gcm_decrypt P k n (gcm_encrypt P k n m) = Some m)"

definition json_serializable :: "'k platform \<Rightarrow> json \<Rightarrow> bool" where
  "json_serializable P R \<longleftrightarrow>
     JSON_parse P (text_decode P (text_encode P (JSON_stringify P R))) = Some R"

subsection \<open>Database: accounts and sign-in\<close>

text \<open>
  A document of the accounts database, as \<^verbatim>\<open>createAccount\<close> writes it. The verifier is
  the array \<^verbatim>\<open>createVerifier\<close> returned (numbers that are bytes); the salt is stored
  through \<^verbatim>\<open>Array.from\<close> and read back through \<^verbatim>\<open>new Uint8Array\<close>.
\<close>

record account =
  acct_id :: string
  acct_name :: string
  acct_salt :: "int list"
  acct_verifier :: "byte list"
  acct_createdAt :: string

text \<open>A document of a user database, as \<^verbatim>\<open>save\<close> and \<^verbatim>\<open>update\<close> write it.\<close>

record doc =
  doc_id :: string
  doc_type :: string
  encryptedData :: "envelope option"
  createdAt :: string
  updatedAt :: "string option"

text \<open>
  The fields of a \<^verbatim>\<open>Database\<close> object. \<open>accountsDB\<close> is \<^verbatim>\<open>null\<close> until \<^verbatim>\<open>init\<close> opens
  the accounts database; \<open>userDB\<close> is \<^verbatim>\<open>null\<close> or the name of the user database that
  \<^verbatim>\<open>signIn\<close> opened. \<open>storage\<close> is not a field of the class: it is the browser's store of
  PouchDB databases by name, each as the list of documents \<^verbatim>\<open>allDocs\<close> returns.
\<close>

record 'k Database =
  accountsDB :: "(string \<rightharpoonup> account) option"
  userDB :: "string option"
  crypto :: "'k SecureCrypto"
  isSyncing :: bool
  pendingSync :: bool
  storage :: "string \<Rightarrow> doc list"

definition new_Database :: "(string \<rightharpoonup> account) \<Rightarrow> (string \<Rightarrow> doc list) \<Rightarrow> 'k Database" where
  "new_Database accounts st =
     \<lparr>accountsDB = Some accounts, userDB = None,
      crypto = \<lparr>key = None, accountId = None, salt = None\<rparr>,
      isSyncing = False, pendingSync = False, storage = st\<rparr>"

text \<open>
  \<^verbatim>\<open>createAccount(name, passphrase)\<close>; the random id and salt and the clock are arguments.
  Before \<^verbatim>\<open>init\<close> the call on \<^verbatim>\<open>null\<close> is a \<^verbatim>\<open>TypeError\<close>, and PouchDB rejects the
  \<^verbatim>\<open>put\<close> of an id that exists; both leave the object as it is.
\<close>

definition createAccount ::
  "'k platform \<Rightarrow> 'k Database \<Rightarrow> string \<Rightarrow> byte list \<Rightarrow> string \<Rightarrow> string \<Rightarrow> string \<Rightarrow>
   error + (string \<times> 'k Database)" where
  "createAccount P this uuid fresh_salt now nm passphrase =
     (case accountsDB this of
        None \<Rightarrow> Inl TypeError
      | Some accounts \<Rightarrow>
          if accounts uuid \<noteq> None then Inl Pouch_conflict
          else Inr (uuid, this\<lparr>accountsDB := Some (accounts(uuid \<mapsto>
                  \<lparr>acct_id = uuid, acct_name = nm, acct_salt = Array_from fresh_salt,
                   acct_verifier = createVerifier P passphrase fresh_salt,
                   acct_createdAt = now\<rparr>))\<rparr>))"

text \<open>
  \<^verbatim>\<open>signIn(accountId, passphrase)\<close>. PouchDB's \<^verbatim>\<open>get\<close> rejects for an unknown id, and
  \<^verbatim>\<open>signIn\<close> does not catch that; the passphrase check throws
  \<^verbatim>\<open>new Error('Invalid passphrase')\<close>. Both happen before any field is assigned.
\<close>

definition signIn ::
  "'k platform \<Rightarrow> 'k Database \<Rightarrow> string \<Rightarrow> string \<Rightarrow> error + (account \<times> 'k Database)" where
  "signIn P this accId passphrase =
     (case accountsDB this of
        None \<Rightarrow> Inl TypeError
      | Some accounts \<Rightarrow>
          (case accounts accId of
             None \<Rightarrow> Inl Pouch_not_found
           | Some acct \<Rightarrow>
               (let s = new_Uint8Array (acct_salt acct)
                in if \<not> verifyPassword P passphrase s (acct_verifier acct)
                   then Inl Invalid_passphrase
                   else Inr (acct,
                     this\<lparr>crypto := \<lparr>key = Some (deriveKey P passphrase s),
                                      accountId = Some accId, salt = Some s\<rparr>,
                          userDB := Some (''guardfin-user-'' @ accId)\<rparr>))))"

definition signOut :: "'k Database \<Rightarrow> 'k Database" where
  "signOut this = this\<lparr>crypto := cleanup (crypto this), userDB := None\<rparr>"

subsection \<open>Database: reading records\<close>

text \<open>Decimal digits of an index, for the property names of arrays and strings.\<close>

function show_nat :: "nat \<Rightarrow> string" where
  "show_nat n =
     (if n < 10 then [''0123456789'' ! n]
      else show_nat (n div 10) @ [''0123456789'' ! (n mod 10)])"
  by pat_completeness auto
termination
  by (relation "measure id") auto

declare show_nat.simps [simp del]

text \<open>
  The own enumerable properties that \<^verbatim>\<open>{...data}\<close> copies: the fields of an object, the
  indexed elements of an array or of a string, nothing for the other values.
\<close>

fun own_props :: "json \<Rightarrow> (string \<times> json) list" where
  "own_props (JObj kvs) = kvs"
| "own_props (JArr xs) = zip (map show_nat [0..<length xs]) xs"
| "own_props (JStr cs) = zip (map show_nat [0..<length cs]) (map (\<lambda>c. JStr [c]) cs)"
| "own_props _ = []"

text \<open>Assigning a property: in place when the object has it, at the end otherwise.\<close>

fun set_prop :: "string \<Rightarrow> json \<Rightarrow> (string \<times> json) list \<Rightarrow> (string \<times> json) list" where
  "set_prop k v [] = [(k, v)]"
| "set_prop k v ((k', v') # ps) = (if k' = k then (k, v) # ps else (k', v') # set_prop k v ps)"

text \<open>
  \<^verbatim>\<open>{ _id: row.doc._id, type: row.doc.type, createdAt: row.doc.createdAt, ...data }\<close>:
  the properties of \<open>d\<close> come last and replace the three of the document they name.
\<close>

definition spread_record :: "doc \<Rightarrow> json \<Rightarrow> (string \<times> json) list" where
  "spread_record row d =
     fold (\<lambda>(k, v). set_prop k v) (own_props d)
       [(''_id'', JStr (doc_id row)), (''type'', JStr (doc_type row)),
        (''createdAt'', JStr (createdAt row))]"

text \<open>
  The loop of \<^verbatim>\<open>getAll\<close> over \<^verbatim>\<open>result.rows\<close>, with the array \<^verbatim>\<open>decrypted\<close> and the
  errors passed to \<^verbatim>\<open>console.error\<close> as accumulators.
\<close>

fun getAll_rows ::
  "'k platform \<Rightarrow> 'k SecureCrypto \<Rightarrow> doc list \<Rightarrow> (string \<times> json) list list \<Rightarrow> error list \<Rightarrow>
   (string \<times> json) list list \<times> error list" where
  "getAll_rows P c [] decrypted logged = (decrypted, logged)"
| "getAll_rows P c (row # rows) decrypted logged =
     (case encryptedData row of
        None \<Rightarrow> getAll_rows P c rows decrypted logged
      | Some e \<Rightarrow>
          (case decrypt P c e of
             Inr d \<Rightarrow> getAll_rows P c rows (decrypted @ [spread_record row d]) logged
           | Inl err \<Rightarrow> getAll_rows P c rows decrypted (logged @ [err])))"

definition getAll :: "'k platform \<Rightarrow> 'k Database \<Rightarrow> (string \<times> json) list list \<times> error list" where
  "getAll P this =
     (case userDB this of
        None \<Rightarrow> ([], [])
      | Some nm \<Rightarrow> getAll_rows P (crypto this) (storage this nm) [] [])"

definition getByType ::
  "'k platform \<Rightarrow> 'k Database \<Rightarrow> string \<Rightarrow> (string \<times> json) list list \<times> error list" where
  "getByType P this ty =
     (case getAll P this of
        (all, logged) \<Rightarrow> (filter (\<lambda>d. map_of d ''type'' = Some (JStr ty)) all, logged))"

text \<open>What one row contributes to a read: a record, a logged error, or nothing.\<close>

definition row_record :: "'k platform \<Rightarrow> 'k SecureCrypto \<Rightarrow> doc \<Rightarrow> (string \<times> json) list option" where
  "row_record P c row =
     (case encryptedData row of
        None \<Rightarrow> None
      | Some e \<Rightarrow> (case decrypt P c e of Inr d \<Rightarrow> Some (spread_record row d) | Inl err \<Rightarrow> None))"

definition row_error :: "'k platform \<Rightarrow> 'k SecureCrypto \<Rightarrow> doc \<Rightarrow> error option" where
  "row_error P c row =
     (case encryptedData row of
        None \<Rightarrow> None
      | Some e \<Rightarrow> (case decrypt P c e of Inr d \<Rightarrow> None | Inl err \<Rightarrow> Some err))"

subsection \<open>Database: mutations and the sync scheduler\<close>

text \<open>
  The scheduler lives in the browser's event loop, so the model carries, next to the
  \<^verbatim>\<open>Database\<close> object, what the event loop holds for it: the clock in milliseconds, the
  due times of the callbacks registered by \<^verbatim>\<open>setTimeout(() => this.syncToServer(), 2000)\<close>,
  the calls of \<^verbatim>\<open>syncToServer\<close> that are suspended at one of its two \<^verbatim>\<open>await\<close>s, the last
  status passed to \<^verbatim>\<open>App.updateSyncStatus\<close>, and the bodies posted to \<^verbatim>\<open>/api/sync\<close> so far.
  A posted body is kept without its constant field \<^verbatim>\<open>settings: {}\<close>.
\<close>

datatype phase = Await_allDocs string | Await_fetch

datatype outcome = Response_ok | Response_not_ok | Transport_failure

record sync_body =
  body_accountId :: "string option"
  transactions :: "doc list"
  recurring_bills :: "doc list"
  goals :: "doc list"
  budgets :: "doc list"
  reminders :: "doc list"

record 'k client =
  db :: "'k Database"
  clock :: nat
  timers :: "nat list"
  running :: "phase list"
  syncStatus :: string
  posted :: "sync_body list"

definition new_client :: "(string \<rightharpoonup> account) \<Rightarrow> (string \<Rightarrow> doc list) \<Rightarrow> 'k client" where
  "new_client accounts st =
     \<lparr>db = new_Database accounts st, clock = 0, timers = [], running = [],
      syncStatus = ''connected'', posted = []\<rparr>"

definition scheduleSync :: "'k client \<Rightarrow> 'k client" where
  "scheduleSync s =
     (if pendingSync (db s) then s
      else s\<lparr>db := (db s)\<lparr>pendingSync := True\<rparr>, timers := timers s @ [clock s + 2000]\<rparr>)"

text \<open>
  \<^verbatim>\<open>syncToServer\<close> up to its first \<^verbatim>\<open>await\<close>: the guard, the two flags, the status, and the
  call of \<^verbatim>\<open>allDocs\<close> on the user database that is open at that moment.
\<close>

definition syncToServer :: "'k client \<Rightarrow> 'k client" where
  "syncToServer s =
     (if isSyncing (db s) then s
      else (case userDB (db s) of
              None \<Rightarrow> s
            | Some nm \<Rightarrow>
                s\<lparr>db := (db s)\<lparr>isSyncing := True, pendingSync := False\<rparr>,
                  syncStatus := ''syncing'',
                  running := running s @ [Await_allDocs nm]\<rparr>))"

definition build_sync_data :: "string option \<Rightarrow> doc list \<Rightarrow> sync_body" where
  "build_sync_data acc rows =
     \<lparr>body_accountId = acc,
      transactions = filter (\<lambda>r. doc_type r = ''transaction'') rows,
      recurring_bills = filter (\<lambda>r. doc_type r = ''bill'') rows,
      goals = filter (\<lambda>r. doc_type r = ''goal'') rows,
      budgets = filter (\<lambda>r. doc_type r = ''budget'') rows,
      reminders = filter (\<lambda>r. doc_type r = ''reminder'') rows\<rparr>"

text \<open>The first suspended call that waits for \<^verbatim>\<open>allDocs\<close>, and the calls without it.\<close>

fun take_allDocs :: "phase list \<Rightarrow> (string \<times> phase list \<times> phase list) option" where
  "take_allDocs [] = None"
| "take_allDocs (Await_allDocs nm # ps) = Some (nm, [], ps)"
| "take_allDocs (Await_fetch # ps) =
     (case take_allDocs ps of
        None \<Rightarrow> None
      | Some (nm, before, after) \<Rightarrow> Some (nm, Await_fetch # before, after))"

text \<open>The calls without the first one that waits for \<^verbatim>\<open>fetch\<close>.\<close>

fun take_fetch :: "phase list \<Rightarrow> phase list option" where
  "take_fetch [] = None"
| "take_fetch (Await_fetch # ps) = Some ps"
| "take_fetch (Await_allDocs nm # ps) =
     (case take_fetch ps of None \<Rightarrow> None | Some ps' \<Rightarrow> Some (Await_allDocs nm # ps'))"

text \<open>
  \<^verbatim>\<open>allDocs\<close> resolves: the call builds the body from the rows and the account id the object
  holds now, and posts it.
\<close>

definition allDocs_resolves :: "'k client \<Rightarrow> 'k client" where
  "allDocs_resolves s =
     (case take_allDocs (running s) of
        None \<Rightarrow> s
      | Some (nm, before, after) \<Rightarrow>
          s\<lparr>running := before @ Await_fetch # after,
            posted := posted s @
              [build_sync_data (accountId (crypto (db s))) (storage (db s) nm)]\<rparr>)"

text \<open>\<^verbatim>\<open>allDocs\<close> rejects: \<^verbatim>\<open>catch\<close> reports offline, \<^verbatim>\<open>finally\<close> clears the flag.\<close>

definition allDocs_rejects :: "'k client \<Rightarrow> 'k client" where
  "allDocs_rejects s =
     (case take_allDocs (running s) of
        None \<Rightarrow> s
      | Some (nm, before, after) \<Rightarrow>
          s\<lparr>running := before @ after, syncStatus := ''offline'',
            db := (db s)\<lparr>isSyncing := False\<rparr>\<rparr>)"

text \<open>\<^verbatim>\<open>fetch\<close> settles: the status is reported and \<^verbatim>\<open>finally\<close> clears the flag.\<close>

definition fetch_settles :: "outcome \<Rightarrow> 'k client \<Rightarrow> 'k client" where
  "fetch_settles out s =
     (case take_fetch (running s) of
        None \<Rightarrow> s
      | Some rest \<Rightarrow>
          s\<lparr>running := rest,
            syncStatus := (case out of Response_ok \<Rightarrow> ''synced''
                           | Response_not_ok \<Rightarrow> ''error''
                           | Transport_failure \<Rightarrow> ''offline''),
            db := (db s)\<lparr>isSyncing := False\<rparr>\<rparr>)"

text \<open>The timers without the first one that is due.\<close>

fun take_due :: "nat \<Rightarrow> nat list \<Rightarrow> nat list option" where
  "take_due now [] = None"
| "take_due now (t # ts) =
     (if t \<le> now then Some ts
      else (case take_due now ts of None \<Rightarrow> None | Some ts' \<Rightarrow> Some (t # ts')))"

definition timer_fires :: "'k client \<Rightarrow> 'k client" where
  "timer_fires s =
     (case take_due (clock s) (timers s) of
        None \<Rightarrow> s
      | Some ts \<Rightarrow> syncToServer (s\<lparr>timers := ts\<rparr>))"

text \<open>
  \<^verbatim>\<open>save\<close>, \<open>update\<close> and \<open>delete\<close>, each taken as one step. The random parts (uuid, iv) and
  the ISO date are arguments. PouchDB rejects a \<^verbatim>\<open>put\<close> of an id that exists without its
  revision, and a \<^verbatim>\<open>get\<close> of an id that does not exist; every error leaves the state as
  it is and \<^verbatim>\<open>scheduleSync\<close> is not reached.
\<close>

definition set_docs :: "'k client \<Rightarrow> string \<Rightarrow> doc list \<Rightarrow> 'k client" where
  "set_docs s nm ds = s\<lparr>db := (db s)\<lparr>storage := (storage (db s))(nm := ds)\<rparr>\<rparr>"

definition save ::
  "'k platform \<Rightarrow> string \<Rightarrow> json \<Rightarrow> string \<Rightarrow> byte list \<Rightarrow> string \<Rightarrow> 'k client \<Rightarrow>
   error + (string \<times> 'k client)" where
  "save P ty d uuid fresh_iv today s =
     (case userDB (db s) of
        None \<Rightarrow> Inl Not_signed_in
      | Some nm \<Rightarrow>
          (case encrypt P (crypto (db s)) fresh_iv (int (clock s)) d of
             Inl e \<Rightarrow> Inl e
           | Inr encrypted \<Rightarrow>
               (let new_id = ty @ ''_'' @ uuid
                in if new_id \<in> set (map doc_id (storage (db s) nm)) then Inl Pouch_conflict
                   else Inr (new_id,
                     scheduleSync (set_docs s nm (storage (db s) nm @
                       [\<lparr>doc_id = new_id, doc_type = ty, encryptedData = Some encrypted,
                         createdAt = today, updatedAt = None\<rparr>]))))))"

definition update ::
  "'k platform \<Rightarrow> string \<Rightarrow> json \<Rightarrow> byte list \<Rightarrow> string \<Rightarrow> 'k client \<Rightarrow> error + 'k client" where
  "update P docId d fresh_iv today s =
     (case userDB (db s) of
        None \<Rightarrow> Inl Not_signed_in
      | Some nm \<Rightarrow>
          (case find (\<lambda>r. doc_id r = docId) (storage (db s) nm) of
             None \<Rightarrow> Inl Pouch_not_found
           | Some old \<Rightarrow>
               (case encrypt P (crypto (db s)) fresh_iv (int (clock s)) d of
                  Inl e \<Rightarrow> Inl e
                | Inr encrypted \<Rightarrow>
                    Inr (scheduleSync (set_docs s nm
                      (map (\<lambda>r. if doc_id r = docId
                                 then r\<lparr>encryptedData := Some encrypted, updatedAt := Some today\<rparr>
                                 else r)
                         (storage (db s) nm)))))))"

definition delete :: "string \<Rightarrow> 'k client \<Rightarrow> error + 'k client" where
  "delete docId s =
     (case userDB (db s) of
        None \<Rightarrow> Inl Not_signed_in
      | Some nm \<Rightarrow>
          (case find (\<lambda>r. doc_id r = docId) (storage (db s) nm) of
             None \<Rightarrow> Inl Pouch_not_found
           | Some old \<Rightarrow>
               Inr (scheduleSync (set_docs s nm
                 (filter (\<lambda>r. doc_id r \<noteq> docId) (storage (db s) nm))))))"

text \<open>What can happen to a client, one event at a time.\<close>

datatype event =
    Save string json string "byte list" string
  | Update string json "byte list" string
  | Delete string
  | Advance nat
  | Timer_fires
  | AllDocs_resolves
  | AllDocs_rejects
  | Fetch_settles outcome
  | Sign_in string string
  | Sign_out

fun fire :: "'k platform \<Rightarrow> event \<Rightarrow> 'k client \<Rightarrow> 'k client" where
  "fire P (Save ty d uuid fresh_iv today) s =
     (case save P ty d uuid fresh_iv today s of Inl e \<Rightarrow> s | Inr (new_id, s') \<Rightarrow> s')"
| "fire P (Update docId d fresh_iv today) s =
     (case update P docId d fresh_iv today s of Inl e \<Rightarrow> s | Inr s' \<Rightarrow> s')"
| "fire P (Delete docId) s = (case delete docId s of Inl e \<Rightarrow> s | Inr s' \<Rightarrow> s')"
| "fire P (Advance ms) s = s\<lparr>clock := clock s + ms\<rparr>"
| "fire P Timer_fires s = timer_fires s"
| "fire P AllDocs_resolves s = allDocs_resolves s"
| "fire P AllDocs_rejects s = allDocs_rejects s"
| "fire P (Fetch_settles out) s = fetch_settles out s"
| "fire P (Sign_in accId passphrase) s =
     (case signIn P (db s) accId passphrase of Inl e \<Rightarrow> s | Inr (acct, d) \<Rightarrow> s\<lparr>db := d\<rparr>)"
| "fire P Sign_out s = s\<lparr>db := signOut (db s)\<rparr>"

definition run :: "'k platform \<Rightarrow> event list \<Rightarrow> 'k client \<Rightarrow> 'k client" where
  "run P evs s = fold (fire P) evs s"

text \<open>The events of a burst of edits: mutations and the time between them.\<close>

fun edit_or_wait :: "event \<Rightarrow> bool" where
  "edit_or_wait (Save ty d uuid fresh_iv today) = True"
| "edit_or_wait (Update docId d fresh_iv today) = True"
| "edit_or_wait (Delete docId) = True"
| "edit_or_wait (Advance ms) = True"
| "edit_or_wait ev = False"

text \<open>The requests that are in flight: the suspended calls that wait for \<^verbatim>\<open>fetch\<close>.\<close>

definition in_flight :: "'k client \<Rightarrow> nat" where
  "in_flight s = length (filter (\<lambda>p. p = Await_fetch) (running s))"

text \<open>
  While the flag \<open>isSyncing\<close> is set exactly one call is suspended, and no call is suspended
  while it is clear.
\<close>

definition sync_inv :: "'k client \<Rightarrow> bool" where
  "sync_inv s \<longleftrightarrow> (isSyncing (db s) \<longleftrightarrow> running s \<noteq> []) \<and> length (running s) \<le> 1"

subsection \<open>Server: the sync endpoint\<close>

text \<open>
  How the operating system takes a write of a text to a path: it completes, it is refused
  before anything is written (a directory of the path is missing, the name is too long,
  access is denied), or it stops with an error after some characters (the disk is full).
\<close>

datatype write_fault = No_fault | Refused | Stops_after nat

text \<open>
  What the endpoint uses of Node.js and of the operating system below it: \<^verbatim>\<open>path.join\<close>,
  \<^verbatim>\<open>JSON.stringify(value, null, 2)\<close>, \<^verbatim>\<open>JSON.parse\<close> (\<open>None\<close> is its \<^verbatim>\<open>SyntaxError\<close>), the
  conversion of an array or object to a string that \<^verbatim>\<open>+\<close> applies, the fault of a write
  to a path, and whether a rename from one path to another is refused.
\<close>

record node =
  path_join :: "string \<Rightarrow> string \<Rightarrow> string"
  stringify_pretty :: "json \<Rightarrow> string"
  parse_json :: "string \<Rightarrow> json option"
  to_string :: "json \<Rightarrow> string"
  fault_of_write :: "string \<Rightarrow> string \<Rightarrow> write_fault"
  rename_refused :: "string \<Rightarrow> string \<Rightarrow> bool"

text \<open>The files of the server, by path; only regular files are modelled.\<close>

type_synonym filesystem = "string \<rightharpoonup> string"

record response =
  status :: nat
  payload :: json

text \<open>Reading a named property; \<open>None\<close> is \<^verbatim>\<open>undefined\<close>.\<close>

fun get_prop :: "json \<Rightarrow> string \<Rightarrow> json option" where
  "get_prop (JObj kvs) k = map_of kvs k"
| "get_prop j k = None"

fun truthy :: "json \<Rightarrow> bool" where
  "truthy JNull = False"
| "truthy (JBool b) = b"
| "truthy (JNum n) = (n \<noteq> 0)"
| "truthy (JStr s) = (s \<noteq> [])"
| "truthy (JArr xs) = True"
| "truthy (JObj kvs) = True"

fun is_string :: "json \<Rightarrow> bool" where
  "is_string (JStr s) = True"
| "is_string j = False"

fun is_array :: "json \<Rightarrow> bool" where
  "is_array (JArr xs) = True"
| "is_array j = False"

text \<open>\<^verbatim>\<open>value || fallback\<close> on a property that may be \<^verbatim>\<open>undefined\<close>.\<close>

definition or_else :: "json option \<Rightarrow> json \<Rightarrow> json" where
  "or_else v fallback = (case v of None \<Rightarrow> fallback | Some x \<Rightarrow> if truthy x then x else fallback)"

definition bad_request :: "string \<Rightarrow> response" where
  "bad_request msg = \<lparr>status = 400, payload = JObj [(''error'', JStr msg)]\<rparr>"

definition sync_fields :: "string list" where
  "sync_fields = [''transactions'', ''recurring_bills'', ''goals'', ''budgets'', ''reminders'']"

text \<open>
  The loop of \<^verbatim>\<open>validateSyncData\<close> over the five fields; \<open>None\<close> is the call of \<^verbatim>\<open>next()\<close>.
\<close>

fun check_arrays :: "json \<Rightarrow> string list \<Rightarrow> response option" where
  "check_arrays body [] = None"
| "check_arrays body (ty # tys) =
     (case get_prop body ty of
        None \<Rightarrow> check_arrays body tys
      | Some d \<Rightarrow> if \<not> is_array d then Some (bad_request (ty @ '' must be an array''))
                  else check_arrays body tys)"

definition validateSyncData :: "json \<Rightarrow> response option" where
  "validateSyncData body =
     (case get_prop body ''accountId'' of
        None \<Rightarrow> Some (bad_request ''Valid accountId required'')
      | Some a \<Rightarrow>
          if \<not> truthy a \<or> \<not> is_string a then Some (bad_request ''Valid accountId required'')
          else check_arrays body sync_fields)"

text \<open>
  The states of the file system while the first \<open>n\<close> characters of a text are written to
  a path: the file created or truncated, then growing one character at a time.
\<close>

definition write_prefixes :: "filesystem \<Rightarrow> string \<Rightarrow> string \<Rightarrow> nat \<Rightarrow> filesystem list" where
  "write_prefixes fs p content n = map (\<lambda>k. fs(p \<mapsto> take k content)) [0..<Suc n]"

text \<open>
  \<^verbatim>\<open>fs.writeFileSync(path, text)\<close> is not atomic. The result is the list of states the file
  system passes through, in order, and whether the call returned (\<open>True\<close>) or threw.
\<close>

definition writeFileSync :: "node \<Rightarrow> filesystem \<Rightarrow> string \<Rightarrow> string \<Rightarrow> filesystem list \<times> bool" where
  "writeFileSync N fs p content =
     (case fault_of_write N p content of
        Refused \<Rightarrow> ([], False)
      | Stops_after n \<Rightarrow> (write_prefixes fs p content (min n (length content)), False)
      | No_fault \<Rightarrow> (write_prefixes fs p content (length content), True))"

text \<open>
  \<^verbatim>\<open>fs.renameSync(old, new)\<close> replaces the target in one step; \<open>None\<close> is its error, for a
  missing source or a refusal of the operating system.
\<close>

definition renameSync :: "node \<Rightarrow> filesystem \<Rightarrow> string \<Rightarrow> string \<Rightarrow> filesystem option" where
  "renameSync N fs old new =
     (if rename_refused N old new then None
      else (case fs old of
              None \<Rightarrow> None
            | Some content \<Rightarrow> Some ((fs(old := None))(new \<mapsto> content))))"

text \<open>
  A number of JavaScript is a double. \<open>JNum n\<close> stands for the double of the integer value
  \<open>n\<close>; the sum of two such numbers is the double nearest to the exact sum, ties going to
  the even significand of 53 bits. Up to \<open>2 ^ 53\<close> every integer is a double.
\<close>

fun bit_length :: "nat \<Rightarrow> nat" where
  "bit_length n = (if n = 0 then 0 else Suc (bit_length (n div 2)))"

declare bit_length.simps [simp del]

definition round_double :: "int \<Rightarrow> int" where
  "round_double x =
     (if \<bar>x\<bar> \<le> 2 ^ 53 then x
      else (let u = 2 ^ (bit_length (nat \<bar>x\<bar>) - 53);
                q = \<bar>x\<bar> div u;
                r = \<bar>x\<bar> mod u;
                m = (if 2 * r > u \<or> (2 * r = u \<and> odd q) then q + 1 else q)
            in sgn x * m * u))"

text \<open>\<^verbatim>\<open>value + 1\<close>: a sum for numbers and booleans, a concatenation for the other values.\<close>

fun plus_one :: "node \<Rightarrow> json \<Rightarrow> json" where
  "plus_one N (JNum n) = JNum (round_double (n + 1))"
| "plus_one N (JBool b) = JNum ((if b then 1 else 0) + 1)"
| "plus_one N JNull = JNum 1"
| "plus_one N (JStr s) = JStr (s @ ''1'')"
| "plus_one N j = JStr (to_string N j @ ''1'')"

text \<open>
  The sync count of the new bundle: 0, unless the data file exists and the inner \<^verbatim>\<open>try\<close>
  gets through, in which case it is \<^verbatim>\<open>(existing.syncCount || 0) + 1\<close>. The inner \<^verbatim>\<open>catch\<close>
  takes the \<^verbatim>\<open>SyntaxError\<close> of \<^verbatim>\<open>JSON.parse\<close> and the \<^verbatim>\<open>TypeError\<close> of reading a property of
  \<^verbatim>\<open>null\<close>.
\<close>

definition next_syncCount :: "node \<Rightarrow> filesystem \<Rightarrow> string \<Rightarrow> json" where
  "next_syncCount N fs dataFile =
     (case fs dataFile of
        None \<Rightarrow> JNum 0
      | Some txt \<Rightarrow>
          (case parse_json N txt of
             None \<Rightarrow> JNum 0
           | Some existing \<Rightarrow>
               if existing = JNull then JNum 0
               else plus_one N (or_else (get_prop existing ''syncCount'') (JNum 0))))"

definition bundle_of :: "json \<Rightarrow> string \<Rightarrow> json \<Rightarrow> json" where
  "bundle_of body now count =
     JObj [(''transactions'', or_else (get_prop body ''transactions'') (JArr [])),
           (''recurring_bills'', or_else (get_prop body ''recurring_bills'') (JArr [])),
           (''goals'', or_else (get_prop body ''goals'') (JArr [])),
           (''budgets'', or_else (get_prop body ''budgets'') (JArr [])),
           (''reminders'', or_else (get_prop body ''reminders'') (JArr [])),
           (''settings'', or_else (get_prop body ''settings'') (JObj [])),
           (''lastSync'', JStr now),
           (''syncCount'', count)]"

definition data_file :: "node \<Rightarrow> string \<Rightarrow> string \<Rightarrow> string" where
  "data_file N DB_DIR acc = path_join N DB_DIR (acc @ ''.json'')"

definition temp_file :: "node \<Rightarrow> string \<Rightarrow> string \<Rightarrow> string" where
  "temp_file N DB_DIR acc = data_file N DB_DIR acc @ ''.tmp''"

definition new_bundle :: "node \<Rightarrow> string \<Rightarrow> string \<Rightarrow> filesystem \<Rightarrow> string \<Rightarrow> json \<Rightarrow> json" where
  "new_bundle N DB_DIR now fs acc body =
     bundle_of body now (next_syncCount N fs (data_file N DB_DIR acc))"

definition server_error :: response where
  "server_error = \<lparr>status = 500, payload = JObj [(''error'', JStr ''Failed to sync data'')]\<rparr>"

text \<open>
  The handler of \<^verbatim>\<open>POST /api/sync\<close> for the account id \<open>acc\<close> of the body; the clock
  (\<^verbatim>\<open>new Date().toISOString()\<close>) is an argument. The result is the list of states the file
  system passes through after the state the request found, and the response. When
  \<^verbatim>\<open>writeFileSync\<close> or \<^verbatim>\<open>renameSync\<close> throws, the outer \<^verbatim>\<open>catch\<close> answers with status 500.
\<close>

definition sync_handler_run ::
  "node \<Rightarrow> string \<Rightarrow> string \<Rightarrow> filesystem \<Rightarrow> string \<Rightarrow> json \<Rightarrow> filesystem list \<times> response" where
  "sync_handler_run N DB_DIR now fs acc body =
     (let syncCount = next_syncCount N fs (data_file N DB_DIR acc);
          encryptedData = bundle_of body now syncCount
      in case writeFileSync N fs (temp_file N DB_DIR acc) (stringify_pretty N encryptedData) of
           (written, returned) \<Rightarrow>
             if \<not> returned then (written, server_error)
             else (case renameSync N (last (fs # written)) (temp_file N DB_DIR acc)
                          (data_file N DB_DIR acc) of
                     None \<Rightarrow> (written, server_error)
                   | Some fs2 \<Rightarrow>
                       (written @ [fs2], \<lparr>status = 200, payload =
                          JObj [(''message'', JStr ''Data synced successfully''),
                                (''syncCount'', syncCount),
                                (''timestamp'', JStr now)]\<rparr>)))"

text \<open>The file system the handler leaves, and its response.\<close>

definition sync_handler ::
  "node \<Rightarrow> string \<Rightarrow> string \<Rightarrow> filesystem \<Rightarrow> string \<Rightarrow> json \<Rightarrow> filesystem \<times> response" where
  "sync_handler N DB_DIR now fs acc body =
     (case sync_handler_run N DB_DIR now fs acc body of
        (states, res) \<Rightarrow> (last (fs # states), res))"

text \<open>
  The states in which a reader, or a stop of the process, can find the file system before
  the handler has finished: the state the request found and every state passed through
  but the last.
\<close>

definition states_before_end ::
  "node \<Rightarrow> string \<Rightarrow> string \<Rightarrow> filesystem \<Rightarrow> string \<Rightarrow> json \<Rightarrow> filesystem list" where
  "states_before_end N DB_DIR now fs acc body =
     butlast (fs # fst (sync_handler_run N DB_DIR now fs acc body))"

text \<open>
  The route as \<^verbatim>\<open>app.post('/api/sync', validateSyncData, handler)\<close> registers it: the handler
  runs only when the validation calls \<^verbatim>\<open>next()\<close>, and then the account id is a string.
\<close>

definition post_api_sync ::
  "node \<Rightarrow> string \<Rightarrow> string \<Rightarrow> filesystem \<Rightarrow> json \<Rightarrow> filesystem \<times> response" where
  "post_api_sync N DB_DIR now fs body =
     (case validateSyncData body of
        Some rejected \<Rightarrow> (fs, rejected)
      | None \<Rightarrow>
          (case get_prop body ''accountId'' of
             Some (JStr acc) \<Rightarrow> sync_handler N DB_DIR now fs acc body
           | _ \<Rightarrow> (fs, server_error)))"

subsection \<open>A small platform for evaluating the model\<close>

text \<open>
  An instance of the platform record on which the definitions above can be run: keys are
  single bytes, the cipher prefixes the plaintext with key and iv and checks both on
  decryption, and the serializer knows strings and objects of one string field. It stands
  in for the browser wherever a statement is evaluated on concrete values.
\<close>

definition demo_stringify :: "json \<Rightarrow> string" where
  "demo_stringify j =
     (case j of
        JStr s \<Rightarrow> s
      | JObj [(k, JStr v)] \<Rightarrow> k @ '':'' @ v
      | _ \<Rightarrow> ''null'')"

definition demo_parse :: "string \<Rightarrow> json option" where
  "demo_parse s =
     (if s = [] then None
      else if s = ''null'' then Some JNull
      else if CHR '':'' \<in> set s
      then Some (JObj [(takeWhile (\<lambda>c. c \<noteq> CHR '':'') s,
                        JStr (tl (dropWhile (\<lambda>c. c \<noteq> CHR '':'') s)))])
      else Some (JStr s))"

definition demo_platform :: "byte platform" where
  "demo_platform =
     \<lparr>deriveBits = (\<lambda>passphrase s. s @ map (\<lambda>c. of_nat (of_char c)) passphrase),
      deriveKey_subtle = (\<lambda>passphrase s. of_nat (length passphrase + length s)),
      gcm_encrypt = (\<lambda>k n m. k # n @ m),
      gcm_decrypt = (\<lambda>k n c. if take (Suc (length n)) c = k # n
                               then Some (drop (Suc (length n)) c) else None),
      JSON_stringify = demo_stringify,
      JSON_parse = demo_parse,
      text_encode = map (\<lambda>c. of_nat (of_char c)),
      text_decode = map (\<lambda>b. char_of (unat b))\<rparr>"

text \<open>
  The account of the specification's scenario, as \<^verbatim>\<open>createAccount\<close> stores it on this
  platform, a database object holding it, and the same object after a successful sign-in
  with three documents in the user database: a transaction, a document whose envelope
  carries another version, and a document without an envelope.
\<close>

definition alex_account :: account where
  "alex_account =
     \<lparr>acct_id = ''id-1'', acct_name = ''Alex'', acct_salt = Array_from [9],
      acct_verifier = createVerifier demo_platform ''CorrectHorseBattery9!'' [9],
      acct_createdAt = ''2025-01-01''\<rparr>"

definition alex_db :: "byte Database" where
  "alex_db = new_Database [''id-1'' \<mapsto> alex_account] (\<lambda>nm. [])"

definition alex_crypto :: "byte SecureCrypto" where
  "alex_crypto = \<lparr>key = Some 22, accountId = Some ''id-1'', salt = Some [9]\<rparr>"

definition food_envelope :: envelope where
  "food_envelope =
     \<lparr>version = ''1.0'', algorithm = ''AES-GCM'', iv = Array_from [1, 2, 3],
      data = Array_from (gcm_encrypt demo_platform 22 [1, 2, 3]
               (text_encode demo_platform
                  (JSON_stringify demo_platform (JObj [(''amount'', JStr ''42.50'')])))),
      timestamp = 1000\<rparr>"

definition alex_docs :: "doc list" where
  "alex_docs =
     [\<lparr>doc_id = ''transaction_u1'', doc_type = ''transaction'',
       encryptedData = Some food_envelope, createdAt = ''2025-01-02'', updatedAt = None\<rparr>,
      \<lparr>doc_id = ''goal_u2'', doc_type = ''goal'',
       encryptedData = Some (food_envelope\<lparr>version := ''2.0''\<rparr>),
       createdAt = ''2025-01-03'', updatedAt = None\<rparr>,
      \<lparr>doc_id = ''_design/x'', doc_type = ''budget'',
       encryptedData = None, createdAt = ''2025-01-04'', updatedAt = None\<rparr>]"

definition alex_signed_in :: "byte Database" where
  "alex_signed_in =
     \<lparr>accountsDB = Some [''id-1'' \<mapsto> alex_account], userDB = Some ''guardfin-user-id-1'',
      crypto = alex_crypto, isSyncing = False, pendingSync = False,
      storage = (\<lambda>nm. if nm = ''guardfin-user-id-1'' then alex_docs else [])\<rparr>"

text \<open>
  The browser store with these documents, a fresh client over it, and a session in which
  the second deletion arrives while the first sync is in flight and that sync outlasts the
  two seconds of the timer.
\<close>

definition alex_storage :: "string \<Rightarrow> doc list" where
  "alex_storage = (\<lambda>nm. if nm = ''guardfin-user-id-1'' then alex_docs else [])"

definition alex_fresh :: "byte client" where
  "alex_fresh = new_client [''id-1'' \<mapsto> alex_account] alex_storage"

definition overlap_trace :: "event list" where
  "overlap_trace =
     [Sign_in ''id-1'' ''CorrectHorseBattery9!'',
      Delete ''transaction_u1'', Advance 2000, Timer_fires, AllDocs_resolves,
      Delete ''goal_u2'', Advance 2000, Timer_fires, Fetch_settles Response_ok]"

text \<open>
  A server platform of the same kind: a bundle is written as its sync count alone, and
  three such texts and \<^verbatim>\<open>null\<close> parse. A write below a directory that does not exist (a
  path with a second slash) is refused. The data directory holds bundles for \<open>id-1\<close> and
  \<open>id-4\<close> and a file that does not parse for \<open>id-2\<close>.
\<close>

definition demo_node :: node where
  "demo_node =
     \<lparr>path_join = (\<lambda>dir file. dir @ ''/'' @ file),
      stringify_pretty = (\<lambda>j. case get_prop j ''syncCount'' of
                                 Some (JNum n) \<Rightarrow> ''syncCount='' @ show_nat (nat n)
                               | _ \<Rightarrow> ''syncCount=?''),
      parse_json = (\<lambda>s. if s = ''syncCount=0'' then Some (JObj [(''syncCount'', JNum 0)])
                         else if s = ''syncCount=1'' then Some (JObj [(''syncCount'', JNum 1)])
                         else if s = ''syncCount=9007199254740992''
                         then Some (JObj [(''syncCount'', JNum 9007199254740992)])
                         else if s = ''null'' then Some JNull
                         else None),
      to_string = (\<lambda>j. ''[object Object]''),
      fault_of_write = (\<lambda>p content. if 1 < length (filter (\<lambda>c. c = CHR ''/'') p)
                                      then Refused else No_fault),
      rename_refused = (\<lambda>old new. False)\<rparr>"

definition demo_files :: filesystem where
  "demo_files =
     [''secure-data/id-1.json'' \<mapsto> ''syncCount=1'',
      ''secure-data/id-2.json'' \<mapsto> ''{'',
      ''secure-data/id-4.json'' \<mapsto> ''syncCount=9007199254740992'']"

section \<open>Verification\<close>

subsection \<open>The evaluation platform\<close>

lemma demo_text_roundtrip: "text_decode demo_platform (text_encode demo_platform s) = s"
proof -
  have "char_of (unat (of_nat (of_char c :: nat) :: byte)) = c" for c
    by (simp add: unat_of_nat)
  then show ?thesis
    by (simp add: demo_platform_def map_idI)
qed

lemma demo_JStr_serializable:
  "s \<noteq> [] \<Longrightarrow> s \<noteq> ''null'' \<Longrightarrow> CHR '':'' \<notin> set s \<Longrightarrow>
   json_serializable demo_platform (JStr s)"
  using demo_text_roundtrip [of "JSON_stringify demo_platform (JStr s)"]
  by (simp add: json_serializable_def) (simp add: demo_platform_def demo_stringify_def demo_parse_def)

lemma demo_gcm_correct: "gcm_correct demo_platform k"
  by (simp add: gcm_correct_def demo_platform_def)

subsection \<open>Constant-time comparison\<close>

lemma xor_int32_zero_iff: "(a::int32) XOR b = 0 \<longleftrightarrow> a = b"
  by (metis bit.xor_left_self xor.right_neutral)

lemma ucast_byte_inj: "(ucast (a::byte) :: int32) = ucast (b::byte) \<longleftrightarrow> a = b"
proof
  assume h: "(ucast a :: int32) = ucast b"
  have up: "is_up (ucast :: byte \<Rightarrow> int32)"
    by (simp add: is_up)
  have "ucast (ucast a :: int32) = a" "ucast (ucast b :: int32) = b"
    using up by (rule ucast_up_ucast_id)+
  with h show "a = b" by metis
qed simp

lemma xor_byte_zero_iff: "(ucast (a::byte) XOR (ucast (b::byte) :: int32)) = 0 \<longleftrightarrow> a = b"
  by (simp add: xor_int32_zero_iff ucast_byte_inj)

lemma or_all_zero_iff: "or_all r ds = 0 \<longleftrightarrow> r = 0 \<and> (\<forall>d \<in> set ds. d = 0)"
  unfolding or_all_def
  by (induction ds arbitrary: r) (auto simp: or_eq_0_iff)

lemma verify_loop_eq:
  "i \<le> length computed \<Longrightarrow> length computed = length storedVerifier \<Longrightarrow>
   verify_loop computed storedVerifier i result =
     (length computed, or_all result (xor_bytes (drop i computed) (drop i storedVerifier)))"
proof (induction computed storedVerifier i result rule: verify_loop.induct)
  case (1 computed storedVerifier i result)
  show ?case
  proof (cases "i < length computed")
    case True
    then have lt: "i < length storedVerifier" using "1.prems" by simp
    have dc: "drop i computed = computed ! i # drop (Suc i) computed"
      using True by (simp add: Cons_nth_drop_Suc)
    have ds: "drop i storedVerifier = storedVerifier ! i # drop (Suc i) storedVerifier"
      using lt by (simp add: Cons_nth_drop_Suc)
    have "verify_loop computed storedVerifier i result =
          verify_loop computed storedVerifier (Suc i)
            (result OR (ucast (computed ! i) XOR ucast (storedVerifier ! i)))"
      using True lt by (subst verify_loop.simps) simp
    also have "\<dots> = (length computed,
        or_all (result OR (ucast (computed ! i) XOR ucast (storedVerifier ! i)))
          (xor_bytes (drop (Suc i) computed) (drop (Suc i) storedVerifier)))"
      using "1.IH" [OF True] True lt "1.prems" by simp
    finally show ?thesis
      by (subst dc, subst ds) (simp add: xor_bytes_def or_all_def)
  next
    case False
    then have "i = length computed" using "1.prems" by simp
    then show ?thesis
      using "1.prems" by (subst verify_loop.simps) (simp add: xor_bytes_def or_all_def)
  qed
qed

lemma xor_bytes_all_zero_iff:
  "length xs = length ys \<Longrightarrow> (\<forall>d \<in> set (xor_bytes xs ys). d = 0) \<longleftrightarrow> xs = ys"
proof (induction xs arbitrary: ys)
  case Nil
  then show ?case by (simp add: xor_bytes_def)
next
  case (Cons x xs)
  then obtain y ys' where ys: "ys = y # ys'" by (cases ys) auto
  with Cons.prems have len: "length xs = length ys'" by simp
  have "(\<forall>d \<in> set (xor_bytes (x # xs) (y # ys')). d = 0) \<longleftrightarrow>
        (ucast x XOR (ucast y :: int32)) = 0 \<and> (\<forall>d \<in> set (xor_bytes xs ys'). d = 0)"
    by (simp add: xor_bytes_def)
  also have "\<dots> \<longleftrightarrow> x = y \<and> xs = ys'"
    using Cons.IH [OF len] by (simp add: xor_byte_zero_iff)
  finally show ?case by (simp add: ys)
qed

lemma compare_verifier_spec:
  "(length computed \<noteq> length storedVerifier \<longrightarrow> \<not> compare_verifier computed storedVerifier) \<and>
   (length computed = length storedVerifier \<longrightarrow>
      (compare_verifier computed storedVerifier \<longleftrightarrow>
         (\<forall>i < length computed. computed ! i = storedVerifier ! i)) \<and>
      verify_loop computed storedVerifier 0 0 =
        (length computed, or_all 0 (xor_bytes computed storedVerifier)))"
proof (intro conjI impI)
  assume "length computed \<noteq> length storedVerifier"
  then show "\<not> compare_verifier computed storedVerifier"
    by (simp add: compare_verifier_def)
next
  assume len: "length computed = length storedVerifier"
  have loop: "verify_loop computed storedVerifier 0 0 =
      (length computed, or_all 0 (xor_bytes computed storedVerifier))"
    using verify_loop_eq [of 0 computed storedVerifier 0] len by simp
  show "verify_loop computed storedVerifier 0 0 =
      (length computed, or_all 0 (xor_bytes computed storedVerifier))"
    by (rule loop)
  have "compare_verifier computed storedVerifier \<longleftrightarrow>
        or_all 0 (xor_bytes computed storedVerifier) = 0"
    using len loop by (simp add: compare_verifier_def)
  also have "\<dots> \<longleftrightarrow> computed = storedVerifier"
    using xor_bytes_all_zero_iff [OF len] by (simp add: or_all_zero_iff)
  also have "\<dots> \<longleftrightarrow> (\<forall>i < length computed. computed ! i = storedVerifier ! i)"
    using len by (auto simp: list_eq_iff_nth_eq)
  finally show "compare_verifier computed storedVerifier \<longleftrightarrow>
      (\<forall>i < length computed. computed ! i = storedVerifier ! i)" .
qed

text \<open>
  C6. \<^verbatim>\<open>verifyPassword\<close> returns false when the recomputed verifier and the stored one differ
  in length. When the lengths agree it returns true exactly when every byte matches; the
  loop then runs over all bytes whatever they are (it is left with \<open>i\<close> equal to the length,
  so there is no exit at the first differing byte), and its result is the bitwise OR of
  the XORs of all byte pairs.
\<close>

theorem verifyPassword_constant_time:
  "(length (createVerifier P passphrase s) \<noteq> length storedVerifier \<longrightarrow>
      \<not> verifyPassword P passphrase s storedVerifier) \<and>
   (length (createVerifier P passphrase s) = length storedVerifier \<longrightarrow>
      (verifyPassword P passphrase s storedVerifier \<longleftrightarrow>
         (\<forall>i < length storedVerifier.
            createVerifier P passphrase s ! i = storedVerifier ! i)) \<and>
      verify_loop (createVerifier P passphrase s) storedVerifier 0 0 =
        (length storedVerifier,
         or_all 0 (xor_bytes (createVerifier P passphrase s) storedVerifier)))"
  using compare_verifier_spec [of "createVerifier P passphrase s" storedVerifier]
  by (auto simp: verifyPassword_def)

text \<open>
  The theorem at a verifier of the right length with one wrong byte, and at one that is too
  short: both are rejected, and the loop over the equal-length pair visits both bytes.
\<close>

theorem verifyPassword_constant_time_witness:
  "length (createVerifier demo_platform ''a'' [7]) = length [7, 98 :: byte] \<and>
   length (createVerifier demo_platform ''a'' [7]) \<noteq> length [7 :: byte] \<and>
   \<not> verifyPassword demo_platform ''a'' [7] [7, 98] \<and>
   \<not> verifyPassword demo_platform ''a'' [7] [7] \<and>
   verifyPassword demo_platform ''a'' [7] [7, 97] \<and>
   fst (verify_loop (createVerifier demo_platform ''a'' [7]) [7, 98] 0 0) = 2"
  using verifyPassword_constant_time [of demo_platform "''a''" "[7]" "[7, 98]"]
    verifyPassword_constant_time [of demo_platform "''a''" "[7]" "[7]"]
    verifyPassword_constant_time [of demo_platform "''a''" "[7]" "[7, 97]"]
  by (simp add: createVerifier_def demo_platform_def nth_Cons' All_less_Suc)

subsection \<open>Envelope round trip\<close>

lemma Uint8Array_Array_from: "new_Uint8Array (Array_from bs) = bs"
  by (simp add: new_Uint8Array_def Array_from_def map_idI)

lemma decrypt_envelope:
  assumes "key this = Some k"
    and "gcm_correct P k"
    and "json_serializable P R"
  shows "decrypt P this
           \<lparr>version = ''1.0'', algorithm = ''AES-GCM'', iv = Array_from n,
            data = Array_from (gcm_encrypt P k n (text_encode P (JSON_stringify P R))),
            timestamp = t\<rparr> = Inr R"
proof -
  have "gcm_decrypt P k (new_Uint8Array (Array_from n))
          (new_Uint8Array (Array_from (gcm_encrypt P k n (text_encode P (JSON_stringify P R))))) =
        Some (text_encode P (JSON_stringify P R))"
    using assms(2) by (simp add: Uint8Array_Array_from gcm_correct_def)
  then show ?thesis
    using assms(1,3) by (simp add: decrypt_def json_serializable_def)
qed

text \<open>
  C1. With a key in place (sign-in stores one), \<^verbatim>\<open>encrypt\<close> succeeds on every
  JSON-serializable record, whatever the fresh iv and the clock are, and \<^verbatim>\<open>decrypt\<close> of
  the envelope returns the record. The platform's AES-GCM is taken to be correct.
\<close>

theorem decrypt_encrypt_roundtrip:
  assumes "key this = Some k"
    and "gcm_correct P k"
    and "json_serializable P R"
  shows "\<exists>env. encrypt P this fresh_iv now R = Inr env \<and> decrypt P this env = Inr R"
proof -
  let ?env = "\<lparr>version = ''1.0'', algorithm = ''AES-GCM'', iv = Array_from fresh_iv,
      data = Array_from (gcm_encrypt P k fresh_iv (text_encode P (JSON_stringify P R))),
      timestamp = now\<rparr>"
  have "encrypt P this fresh_iv now R = Inr ?env"
    using assms(1) by (simp add: encrypt_def)
  moreover have "decrypt P this ?env = Inr R"
    using assms by (rule decrypt_envelope)
  ultimately show ?thesis by blast
qed

theorem decrypt_encrypt_roundtrip_witness:
  "key \<lparr>key = Some (5 :: byte), accountId = Some ''acct'', salt = Some [1]\<rparr> = Some 5 \<and>
   gcm_correct demo_platform 5 \<and>
   json_serializable demo_platform (JStr ''rent'') \<and>
   (\<exists>env. encrypt demo_platform \<lparr>key = Some 5, accountId = Some ''acct'', salt = Some [1]\<rparr>
            [1, 2, 3] 1000 (JStr ''rent'') = Inr env \<and>
          decrypt demo_platform \<lparr>key = Some 5, accountId = Some ''acct'', salt = Some [1]\<rparr> env =
            Inr (JStr ''rent''))"
proof -
  have k: "key \<lparr>key = Some (5 :: byte), accountId = Some ''acct'', salt = Some [1]\<rparr> = Some 5"
    by simp
  have g: "gcm_correct demo_platform 5"
    by (rule demo_gcm_correct)
  have j: "json_serializable demo_platform (JStr ''rent'')"
    by (rule demo_JStr_serializable) simp_all
  show ?thesis
    using k g j decrypt_encrypt_roundtrip [OF k g j, of "[1, 2, 3]" 1000] by blast
qed

subsection \<open>Sign-in\<close>

lemma createAccount_alex:
  "createAccount demo_platform (new_Database Map.empty (\<lambda>nm. [])) ''id-1'' [9] ''2025-01-01''
     ''Alex'' ''CorrectHorseBattery9!'' = Inr (''id-1'', alex_db)"
  by (simp add: createAccount_def new_Database_def alex_db_def alex_account_def)

lemma compare_verifier_iff: "compare_verifier computed storedVerifier \<longleftrightarrow> computed = storedVerifier"
  using compare_verifier_spec [of computed storedVerifier]
  by (cases "length computed = length storedVerifier") (auto simp: list_eq_iff_nth_eq)

lemma verifyPassword_iff:
  "verifyPassword P passphrase s storedVerifier \<longleftrightarrow> createVerifier P passphrase s = storedVerifier"
  by (simp add: verifyPassword_def compare_verifier_iff)

text \<open>
  C2, as the code has it. With the accounts database open, \<^verbatim>\<open>signIn\<close> fails in exactly two
  ways. It throws \<^verbatim>\<open>Error('Invalid passphrase')\<close> exactly when the account exists and the
  passphrase does not verify; for an id that is not in the accounts database the
  \<^verbatim>\<open>not_found\<close> rejection of the lookup comes out instead. When it succeeds it returns the
  stored account and holds the key derived from the passphrase and the account's salt.
\<close>

theorem signIn_errors:
  assumes "accountsDB this = Some accounts"
  shows "(signIn P this a passphrase = Inl Pouch_not_found \<longleftrightarrow> accounts a = None) \<and>
         (signIn P this a passphrase = Inl Invalid_passphrase \<longleftrightarrow>
            (\<exists>acct. accounts a = Some acct \<and>
               \<not> verifyPassword P passphrase (new_Uint8Array (acct_salt acct)) (acct_verifier acct))) \<and>
         (\<forall>e. signIn P this a passphrase = Inl e \<longrightarrow> e = Pouch_not_found \<or> e = Invalid_passphrase) \<and>
         (\<forall>acct this'. signIn P this a passphrase = Inr (acct, this') \<longrightarrow>
            accounts a = Some acct \<and>
            verifyPassword P passphrase (new_Uint8Array (acct_salt acct)) (acct_verifier acct) \<and>
            key (crypto this') =
              Some (deriveKey P passphrase (new_Uint8Array (acct_salt acct))))"
  using assms
  by (auto simp: signIn_def Let_def split: option.splits if_splits)

text \<open>The scenario of the specification: account Alex, a wrong and the right passphrase.\<close>

theorem signIn_errors_witness:
  "accountsDB alex_db = Some [''id-1'' \<mapsto> alex_account] \<and>
   signIn demo_platform alex_db ''id-1'' ''wrong-pass'' = Inl Invalid_passphrase \<and>
   signIn demo_platform alex_db ''id-2'' ''wrong-pass'' = Inl Pouch_not_found \<and>
   (\<exists>this'. signIn demo_platform alex_db ''id-1'' ''CorrectHorseBattery9!'' = Inr (alex_account, this'))"
proof -
  have h: "accountsDB alex_db = Some [''id-1'' \<mapsto> alex_account]"
    by (simp add: alex_db_def new_Database_def)
  have bad: "\<not> verifyPassword demo_platform ''wrong-pass''
      (new_Uint8Array (acct_salt alex_account)) (acct_verifier alex_account)"
    by (simp add: verifyPassword_iff alex_account_def Uint8Array_Array_from createVerifier_def
        demo_platform_def)
  have good: "verifyPassword demo_platform ''CorrectHorseBattery9!''
      (new_Uint8Array (acct_salt alex_account)) (acct_verifier alex_account)"
    by (simp add: verifyPassword_iff alex_account_def Uint8Array_Array_from)
  have ok: "\<exists>this'. signIn demo_platform alex_db ''id-1'' ''CorrectHorseBattery9!'' = Inr (alex_account, this')"
    using h good by (simp add: signIn_def Let_def)
  show ?thesis
    using h bad ok
      signIn_errors [OF h, of demo_platform "''id-1''" "''wrong-pass''"]
      signIn_errors [OF h, of demo_platform "''id-2''" "''wrong-pass''"]
    by simp
qed

text \<open>
  C2 as stated fails: with the same wrong passphrase, an unknown account id and a known one
  give two different errors.
\<close>

theorem signIn_error_not_identical:
  "signIn demo_platform alex_db ''id-2'' ''wrong-pass'' = Inl Pouch_not_found \<and>
   signIn demo_platform alex_db ''id-1'' ''wrong-pass'' = Inl Invalid_passphrase \<and>
   signIn demo_platform alex_db ''id-2'' ''wrong-pass'' \<noteq>
     signIn demo_platform alex_db ''id-1'' ''wrong-pass''"
proof -
  have bad: "\<not> verifyPassword demo_platform ''wrong-pass''
      (new_Uint8Array (acct_salt alex_account)) (acct_verifier alex_account)"
    by (simp add: verifyPassword_iff alex_account_def Uint8Array_Array_from createVerifier_def
        demo_platform_def)
  then show ?thesis
    by (simp add: signIn_def alex_db_def new_Database_def Let_def)
qed

subsection \<open>Reading records\<close>

lemma getAll_rows_eq:
  "getAll_rows P c rows decrypted logged =
     (decrypted @ List.map_filter (row_record P c) rows,
      logged @ List.map_filter (row_error P c) rows)"
  by (induction rows arbitrary: decrypted logged)
     (auto simp: List.map_filter_simps row_record_def row_error_def split: option.splits sum.splits)

text \<open>
  C8. In a signed-in session \<^verbatim>\<open>getAll\<close> returns, in order, the record of every row whose
  envelope decrypts, and logs the error of every row whose envelope does not; a failing row
  changes nothing for the rows after it. \<^verbatim>\<open>getByType\<close> returns exactly the records of
  \<^verbatim>\<open>getAll\<close> whose \<^verbatim>\<open>type\<close> property is the requested string.
\<close>

theorem getAll_skips_failed_rows:
  assumes "userDB this = Some nm"
  shows "getAll P this =
           (List.map_filter (row_record P (crypto this)) (storage this nm),
            List.map_filter (row_error P (crypto this)) (storage this nm)) \<and>
         getByType P this ty =
           (filter (\<lambda>d. map_of d ''type'' = Some (JStr ty)) (fst (getAll P this)),
            snd (getAll P this))"
  using assms by (simp add: getAll_def getByType_def getAll_rows_eq split: prod.splits)

lemma food_serializable: "json_serializable demo_platform (JObj [(''amount'', JStr ''42.50'')])"
  using demo_text_roundtrip [of "JSON_stringify demo_platform (JObj [(''amount'', JStr ''42.50'')])"]
  by (simp add: json_serializable_def) (simp add: demo_platform_def demo_stringify_def demo_parse_def)

lemma decrypt_food: "decrypt demo_platform alex_crypto food_envelope = Inr (JObj [(''amount'', JStr ''42.50'')])"
  unfolding food_envelope_def
  by (rule decrypt_envelope [OF _ demo_gcm_correct food_serializable]) (simp add: alex_crypto_def)

lemma decrypt_other_version:
  "decrypt demo_platform alex_crypto (food_envelope\<lparr>version := ''2.0''\<rparr>) = Inl Unsupported_format"
  by (simp add: decrypt_def alex_crypto_def)

text \<open>
  Three rows: one decrypts, one has an unsupported version, one has no envelope. The read
  returns the first and logs the second.
\<close>

theorem getAll_skips_failed_rows_witness:
  "userDB alex_signed_in = Some ''guardfin-user-id-1'' \<and>
   getAll demo_platform alex_signed_in =
     ([[(''_id'', JStr ''transaction_u1''), (''type'', JStr ''transaction''),
        (''createdAt'', JStr ''2025-01-02''), (''amount'', JStr ''42.50'')]],
      [Unsupported_format]) \<and>
   getByType demo_platform alex_signed_in ''transaction'' =
     ([[(''_id'', JStr ''transaction_u1''), (''type'', JStr ''transaction''),
        (''createdAt'', JStr ''2025-01-02''), (''amount'', JStr ''42.50'')]],
      [Unsupported_format]) \<and>
   getByType demo_platform alex_signed_in ''goal'' = ([], [Unsupported_format])"
proof -
  have h: "userDB alex_signed_in = Some ''guardfin-user-id-1''"
    by (simp add: alex_signed_in_def)
  have rows: "storage alex_signed_in ''guardfin-user-id-1'' = alex_docs"
    "crypto alex_signed_in = alex_crypto"
    by (simp_all add: alex_signed_in_def)
  show ?thesis
    using h getAll_skips_failed_rows [OF h, of demo_platform "''transaction''"]
      getAll_skips_failed_rows [OF h, of demo_platform "''goal''"]
    by (simp add: rows alex_docs_def List.map_filter_simps row_record_def row_error_def
        decrypt_food decrypt_other_version spread_record_def)
qed

subsection \<open>The sync scheduler\<close>

lemma scheduleSync_frame [simp]:
  "isSyncing (db (scheduleSync s)) = isSyncing (db s)"
  "running (scheduleSync s) = running s"
  "posted (scheduleSync s) = posted s"
  "clock (scheduleSync s) = clock s"
  "userDB (db (scheduleSync s)) = userDB (db s)"
  by (simp_all add: scheduleSync_def)

lemma set_docs_frame [simp]:
  "isSyncing (db (set_docs s nm ds)) = isSyncing (db s)"
  "pendingSync (db (set_docs s nm ds)) = pendingSync (db s)"
  "running (set_docs s nm ds) = running s"
  "timers (set_docs s nm ds) = timers s"
  "posted (set_docs s nm ds) = posted s"
  "clock (set_docs s nm ds) = clock s"
  by (simp_all add: set_docs_def)

lemma sync_inv_fire: "sync_inv s \<Longrightarrow> sync_inv (fire P ev s)"
proof (cases ev)
  case (Save ty d uuid fresh_iv today)
  then show "sync_inv s \<Longrightarrow> sync_inv (fire P ev s)"
    by (auto simp: sync_inv_def save_def Let_def split: option.splits sum.splits if_splits)
next
  case (Update docId d fresh_iv today)
  then show "sync_inv s \<Longrightarrow> sync_inv (fire P ev s)"
    by (auto simp: sync_inv_def update_def split: option.splits sum.splits)
next
  case (Delete docId)
  then show "sync_inv s \<Longrightarrow> sync_inv (fire P ev s)"
    by (auto simp: sync_inv_def delete_def split: option.splits sum.splits)
next
  case (Advance ms)
  then show "sync_inv s \<Longrightarrow> sync_inv (fire P ev s)"
    by (simp add: sync_inv_def)
next
  case Timer_fires
  then show "sync_inv s \<Longrightarrow> sync_inv (fire P ev s)"
    by (auto simp: sync_inv_def timer_fires_def syncToServer_def split: option.splits)
next
  case AllDocs_resolves
  assume inv: "sync_inv s"
  show "sync_inv (fire P ev s)"
  proof (cases "running s")
    case Nil
    then show ?thesis using inv AllDocs_resolves by (simp add: sync_inv_def allDocs_resolves_def)
  next
    case (Cons p ps)
    with inv have "ps = []" by (simp add: sync_inv_def)
    with Cons inv AllDocs_resolves show ?thesis
      by (cases p) (simp_all add: sync_inv_def allDocs_resolves_def)
  qed
next
  case AllDocs_rejects
  assume inv: "sync_inv s"
  show "sync_inv (fire P ev s)"
  proof (cases "running s")
    case Nil
    then show ?thesis using inv AllDocs_rejects by (simp add: sync_inv_def allDocs_rejects_def)
  next
    case (Cons p ps)
    with inv have "ps = []" by (simp add: sync_inv_def)
    with Cons inv AllDocs_rejects show ?thesis
      by (cases p) (simp_all add: sync_inv_def allDocs_rejects_def)
  qed
next
  case (Fetch_settles out)
  assume inv: "sync_inv s"
  show "sync_inv (fire P ev s)"
  proof (cases "running s")
    case Nil
    then show ?thesis using inv Fetch_settles by (simp add: sync_inv_def fetch_settles_def)
  next
    case (Cons p ps)
    with inv have "ps = []" by (simp add: sync_inv_def)
    with Cons inv Fetch_settles show ?thesis
      by (cases p) (simp_all add: sync_inv_def fetch_settles_def)
  qed
next
  case (Sign_in accId passphrase)
  then show "sync_inv s \<Longrightarrow> sync_inv (fire P ev s)"
    by (auto simp: sync_inv_def signIn_def Let_def split: option.splits sum.splits if_splits)
next
  case Sign_out
  then show "sync_inv s \<Longrightarrow> sync_inv (fire P ev s)"
    by (simp add: sync_inv_def signOut_def)
qed

lemma sync_inv_run: "sync_inv s \<Longrightarrow> sync_inv (run P evs s)"
  unfolding run_def
  by (induction evs arbitrary: s) (simp_all add: sync_inv_fire)

lemma sync_inv_new: "sync_inv (new_client accounts st)"
  by (simp add: sync_inv_def new_client_def new_Database_def)

lemma in_flight_le: "in_flight s \<le> length (running s)"
  by (simp add: in_flight_def)

text \<open>
  C4. In every state a client reaches from a new \<^verbatim>\<open>Database\<close> object, by any sequence of
  mutations, timer callbacks, completions of \<^verbatim>\<open>allDocs\<close> and \<^verbatim>\<open>fetch\<close>, sign-ins and
  sign-outs, at most one sync request is in flight; and while a call of \<^verbatim>\<open>syncToServer\<close>
  is still running, a further call returns at its guard and changes nothing.
\<close>

theorem at_most_one_sync_in_flight:
  "in_flight (run P evs (new_client accounts st)) \<le> 1 \<and>
   (running (run P evs (new_client accounts st)) \<noteq> [] \<longrightarrow>
      syncToServer (run P evs (new_client accounts st)) = run P evs (new_client accounts st))"
proof -
  let ?s = "run P evs (new_client accounts st)"
  have inv: "sync_inv ?s"
    by (rule sync_inv_run) (rule sync_inv_new)
  then have "in_flight ?s \<le> 1"
    using in_flight_le [of ?s] by (simp add: sync_inv_def)
  moreover have "running ?s \<noteq> [] \<longrightarrow> syncToServer ?s = ?s"
    using inv by (simp add: sync_inv_def syncToServer_def)
  ultimately show ?thesis by simp
qed

lemma edit_keeps_pending:
  assumes "pendingSync (db s)" and "edit_or_wait e"
  shows "pendingSync (db (fire P e s)) \<and> timers (fire P e s) = timers s"
  using assms
  by (cases e)
     (auto simp: save_def update_def delete_def scheduleSync_def Let_def
           split: option.splits sum.splits)

lemma burst_keeps_pending:
  "pendingSync (db s) \<Longrightarrow> \<forall>e \<in> set evs. edit_or_wait e \<Longrightarrow>
   pendingSync (db (run P evs s)) \<and> timers (run P evs s) = timers s"
  unfolding run_def
proof (induction evs arbitrary: s)
  case Nil
  then show ?case by simp
next
  case (Cons e evs)
  from Cons.prems have "pendingSync (db (fire P e s)) \<and> timers (fire P e s) = timers s"
    by (simp add: edit_keeps_pending)
  with Cons.IH [of "fire P e s"] Cons.prems show ?case by simp
qed

text \<open>
  C3, as the code has it. The call of \<^verbatim>\<open>scheduleSync\<close> that finds nothing pending
  registers one timer, due 2000 ms after that call; a call that finds a sync pending
  registers nothing. Whatever mutations and waiting follow, and until a timer callback
  runs, the list of timers stays as that call left it: no timer is restarted or added, so
  the sync attempt is due two seconds after the first mutation of a burst.
\<close>

theorem debounce_runs_from_first_mutation:
  assumes "\<forall>e \<in> set evs. edit_or_wait e"
  shows "timers (run P evs (scheduleSync s)) = timers (scheduleSync s) \<and>
         timers (scheduleSync s) =
           (if pendingSync (db s) then timers s else timers s @ [clock s + 2000])"
proof -
  have "pendingSync (db (scheduleSync s))"
    by (simp add: scheduleSync_def)
  then have "timers (run P evs (scheduleSync s)) = timers (scheduleSync s)"
    using assms burst_keeps_pending by blast
  then show ?thesis by (simp add: scheduleSync_def)
qed


lemma alex_sign_in:
  "fire demo_platform (Sign_in ''id-1'' ''CorrectHorseBattery9!'') alex_fresh =
     \<lparr>db = alex_signed_in, clock = 0, timers = [], running = [],
      syncStatus = ''connected'', posted = []\<rparr>"
proof -
  have good: "verifyPassword demo_platform ''CorrectHorseBattery9!''
      (new_Uint8Array (acct_salt alex_account)) (acct_verifier alex_account)"
    by (simp add: verifyPassword_iff alex_account_def Uint8Array_Array_from)
  have k: "deriveKey demo_platform ''CorrectHorseBattery9!'' [9] = 22"
    by (simp add: deriveKey_def demo_platform_def)
  have s: "new_Uint8Array (acct_salt alex_account) = [9]"
    by (simp add: alex_account_def Uint8Array_Array_from)
  show ?thesis
    using good
    by (simp add: alex_fresh_def new_client_def new_Database_def signIn_def Let_def k s
        alex_signed_in_def alex_crypto_def alex_storage_def)
qed

lemma run_Cons: "run P (e # evs) s = run P evs (fire P e s)"
  by (simp add: run_def)

lemmas client_eval =
  run_def alex_signed_in_def alex_docs_def delete_def set_docs_def
  scheduleSync_def timer_fires_def syncToServer_def allDocs_resolves_def fetch_settles_def
  build_sync_data_def alex_crypto_def

text \<open>
  A session with a request in flight: one suspended call, and a further call of
  \<^verbatim>\<open>syncToServer\<close> is without effect.
\<close>

theorem at_most_one_sync_in_flight_witness:
  "running (run demo_platform
      [Sign_in ''id-1'' ''CorrectHorseBattery9!'', Delete ''transaction_u1'', Advance 2000,
       Timer_fires, AllDocs_resolves] (new_client [''id-1'' \<mapsto> alex_account] alex_storage)) =
     [Await_fetch] \<and>
   in_flight (run demo_platform
      [Sign_in ''id-1'' ''CorrectHorseBattery9!'', Delete ''transaction_u1'', Advance 2000,
       Timer_fires, AllDocs_resolves] (new_client [''id-1'' \<mapsto> alex_account] alex_storage)) \<le> 1 \<and>
   syncToServer (run demo_platform
      [Sign_in ''id-1'' ''CorrectHorseBattery9!'', Delete ''transaction_u1'', Advance 2000,
       Timer_fires, AllDocs_resolves] (new_client [''id-1'' \<mapsto> alex_account] alex_storage)) =
     run demo_platform
      [Sign_in ''id-1'' ''CorrectHorseBattery9!'', Delete ''transaction_u1'', Advance 2000,
       Timer_fires, AllDocs_resolves] (new_client [''id-1'' \<mapsto> alex_account] alex_storage)"
proof -
  have r: "running (run demo_platform
      [Sign_in ''id-1'' ''CorrectHorseBattery9!'', Delete ''transaction_u1'', Advance 2000,
       Timer_fires, AllDocs_resolves] (new_client [''id-1'' \<mapsto> alex_account] alex_storage)) =
     [Await_fetch]"
    unfolding run_Cons alex_sign_in [unfolded alex_fresh_def]
    by (simp add: client_eval)
  show ?thesis
    using r at_most_one_sync_in_flight [of demo_platform
      "[Sign_in ''id-1'' ''CorrectHorseBattery9!'', Delete ''transaction_u1'', Advance 2000,
        Timer_fires, AllDocs_resolves]" "[''id-1'' \<mapsto> alex_account]" alex_storage]
    by simp
qed

text \<open>
  A first mutation at 300 ms followed by two deletions 1500 ms later: the only timer is
  due at 2300 ms.
\<close>

theorem debounce_runs_from_first_mutation_witness:
  "edit_or_wait (Delete ''goal_u2'') \<and> edit_or_wait (Advance 1500) \<and>
   edit_or_wait (Delete ''transaction_u1'') \<and>
   timers (run demo_platform [Delete ''goal_u2'', Advance 1500, Delete ''transaction_u1'']
     (scheduleSync \<lparr>db = alex_signed_in, clock = 300, timers = [], running = [],
        syncStatus = ''connected'', posted = []\<rparr>)) = [2300]"
proof -
  have h: "\<forall>e \<in> set [Delete ''goal_u2'', Advance 1500, Delete ''transaction_u1'']. edit_or_wait e"
    by simp
  show ?thesis
    using h debounce_runs_from_first_mutation [OF h, of demo_platform
      "\<lparr>db = alex_signed_in, clock = 300, timers = [], running = [],
        syncStatus = ''connected'', posted = []\<rparr>"]
    by (simp add: alex_signed_in_def)
qed

text \<open>
  C3 as stated fails. Mutations at 0 ms and at 1000 ms leave one timer, due at 2000 ms and
  not at 3000 ms; it fires at 2000 ms, and the batch is built then, one second after the
  last mutation.
\<close>

theorem debounce_not_restarted:
  "timers (run demo_platform
      [Sign_in ''id-1'' ''CorrectHorseBattery9!'', Delete ''transaction_u1'', Advance 1000,
       Delete ''goal_u2''] alex_fresh) = [2000] \<and>
   clock (run demo_platform
      [Sign_in ''id-1'' ''CorrectHorseBattery9!'', Delete ''transaction_u1'', Advance 1000,
       Delete ''goal_u2'', Advance 1000, Timer_fires, AllDocs_resolves] alex_fresh) = 2000 \<and>
   map (\<lambda>b. (map doc_id (transactions b), map doc_id (goals b)))
     (posted (run demo_platform
      [Sign_in ''id-1'' ''CorrectHorseBattery9!'', Delete ''transaction_u1'', Advance 1000,
       Delete ''goal_u2'', Advance 1000, Timer_fires, AllDocs_resolves] alex_fresh)) = [([], [])]"
  unfolding run_Cons alex_sign_in
  by (simp add: client_eval)

lemma stuck_fire:
  assumes "pendingSync (db s)" "timers s = []" "running s = []"
  shows "pendingSync (db (fire P e s)) \<and> timers (fire P e s) = [] \<and> running (fire P e s) = [] \<and>
         posted (fire P e s) = posted s"
  using assms
  by (cases e)
     (auto simp: save_def update_def delete_def scheduleSync_def Let_def timer_fires_def
           allDocs_resolves_def allDocs_rejects_def fetch_settles_def signIn_def signOut_def
           set_docs_def
           split: option.splits sum.splits if_splits)

lemma stuck_run:
  "pendingSync (db s) \<Longrightarrow> timers s = [] \<Longrightarrow> running s = [] \<Longrightarrow>
   posted (run P evs s) = posted s"
  unfolding run_def
proof (induction evs arbitrary: s)
  case Nil
  then show ?case by simp
next
  case (Cons e evs)
  from stuck_fire [OF Cons.prems, of P e] Cons.IH [of "fire P e s"]
  show ?case by simp
qed

text \<open>
  C5 fails on the code. The deletion of the goal arrives while the first sync is in
  flight, and its timer fires before that sync has completed: \<^verbatim>\<open>syncToServer\<close> returns at
  its guard and leaves \<open>pendingSync\<close> set with no timer registered. After the sync has
  completed the only request ever posted still lists the deleted goal, and from then on no
  sequence of events posts another request: every later \<^verbatim>\<open>scheduleSync\<close> returns at its
  own guard.
\<close>

theorem sync_stuck_after_overlap:
  "pendingSync (db (run demo_platform overlap_trace alex_fresh)) \<and>
   \<not> isSyncing (db (run demo_platform overlap_trace alex_fresh)) \<and>
   timers (run demo_platform overlap_trace alex_fresh) = [] \<and>
   running (run demo_platform overlap_trace alex_fresh) = [] \<and>
   map (\<lambda>b. map doc_id (goals b)) (posted (run demo_platform overlap_trace alex_fresh)) =
     [[''goal_u2'']] \<and>
   map doc_id (storage (db (run demo_platform overlap_trace alex_fresh)) ''guardfin-user-id-1'') =
     [''_design/x''] \<and>
   (\<forall>evs. posted (run demo_platform evs (run demo_platform overlap_trace alex_fresh)) =
      posted (run demo_platform overlap_trace alex_fresh))"
proof -
  have a: "pendingSync (db (run demo_platform overlap_trace alex_fresh))"
    and b: "timers (run demo_platform overlap_trace alex_fresh) = []"
    and c: "running (run demo_platform overlap_trace alex_fresh) = []"
    and d: "\<not> isSyncing (db (run demo_platform overlap_trace alex_fresh))"
    and e: "map (\<lambda>b. map doc_id (goals b)) (posted (run demo_platform overlap_trace alex_fresh)) =
     [[''goal_u2'']]"
    and f: "map doc_id (storage (db (run demo_platform overlap_trace alex_fresh)) ''guardfin-user-id-1'') =
     [''_design/x'']"
    unfolding overlap_trace_def run_Cons alex_sign_in
    by (simp_all add: client_eval)
  show ?thesis
    using a b c d e f stuck_run [OF a b c] by simp
qed

subsection \<open>The sync endpoint\<close>

lemma temp_not_data: "temp_file N DB_DIR acc \<noteq> data_file N DB_DIR acc"
  by (simp add: temp_file_def)

lemma write_prefixes_other:
  "st \<in> set (write_prefixes fs p content n) \<Longrightarrow> q \<noteq> p \<Longrightarrow> st q = fs q"
  by (auto simp: write_prefixes_def)

lemma write_prefixes_nonempty [simp]: "write_prefixes fs p content n \<noteq> []"
  by (simp add: write_prefixes_def)

lemma last_write_prefixes [simp]:
  "last (write_prefixes fs p content n) = fs(p \<mapsto> take n content)"
  by (simp add: write_prefixes_def)

lemma full_write_in_prefixes:
  "fs(p \<mapsto> content) \<in> set (write_prefixes fs p content (length content))"
  by (auto simp: write_prefixes_def image_iff intro!: bexI [of _ "length content"])

lemma writeFileSync_other:
  "writeFileSync N fs p content = (written, returned) \<Longrightarrow> st \<in> set (fs # written) \<Longrightarrow>
   q \<noteq> p \<Longrightarrow> st q = fs q"
  by (auto simp: writeFileSync_def split: write_fault.splits dest: write_prefixes_other)

lemma writeFileSync_returned:
  "writeFileSync N fs p content = (written, True) \<Longrightarrow>
   written = write_prefixes fs p content (length content) \<and> last (fs # written) = fs(p \<mapsto> content)"
  by (auto simp: writeFileSync_def split: write_fault.splits)

lemma sync_handler_run_cases:
  fixes N DB_DIR now fs acc body
  defines "content \<equiv> stringify_pretty N (new_bundle N DB_DIR now fs acc body)"
  defines "tmp \<equiv> temp_file N DB_DIR acc"
  defines "dat \<equiv> data_file N DB_DIR acc"
  shows "(\<exists>written. writeFileSync N fs tmp content = (written, False) \<and>
            sync_handler_run N DB_DIR now fs acc body = (written, server_error)) \<or>
         (\<exists>written. writeFileSync N fs tmp content = (written, True) \<and>
            renameSync N (fs(tmp \<mapsto> content)) tmp dat = None \<and>
            sync_handler_run N DB_DIR now fs acc body = (written, server_error)) \<or>
         (\<exists>written res. writeFileSync N fs tmp content = (written, True) \<and> status res = 200 \<and>
            sync_handler_run N DB_DIR now fs acc body =
              (written @ [(fs(tmp := None))(dat \<mapsto> content)], res))"
proof (cases "writeFileSync N fs tmp content")
  case (Pair written returned)
  show ?thesis
  proof (cases returned)
    case False
    with Pair show ?thesis
      by (simp add: sync_handler_run_def Let_def content_def tmp_def dat_def new_bundle_def)
  next
    case True
    with Pair have w: "writeFileSync N fs tmp content = (written, True)" by simp
    from writeFileSync_returned [OF w]
    have l: "last (fs # written) = fs(tmp \<mapsto> content)" by simp
    show ?thesis
    proof (cases "renameSync N (fs(tmp \<mapsto> content)) tmp dat")
      case None
      with w l show ?thesis
        by (simp add: sync_handler_run_def Let_def content_def tmp_def dat_def new_bundle_def)
    next
      case (Some fs2)
      then have "fs2 = (fs(tmp := None))(dat \<mapsto> content)"
        by (auto simp: renameSync_def split: if_splits)
      with Some w l show ?thesis
        by (simp add: sync_handler_run_def Let_def content_def tmp_def dat_def new_bundle_def)
    qed
  qed
qed

text \<open>
  C7. The handler writes the bundle to the temporary path and renames it over the data
  file of the account. In every state in which a reader or a stop of the process can find
  the file system before the handler has finished, the data file of the account is what
  the request found. When the request succeeds, the state between the write and the rename
  (the temporary file complete, the rename not done) is one of these states, and the
  handler leaves the complete new bundle in the data file; when it fails, the handler
  leaves the data file as the request found it. So the data file never holds a part of a
  bundle.
\<close>

theorem put_is_atomic:
  "(\<forall>st \<in> set (states_before_end N DB_DIR now fs acc body).
      st (data_file N DB_DIR acc) = fs (data_file N DB_DIR acc)) \<and>
   (status (snd (sync_handler N DB_DIR now fs acc body)) = 200 \<longrightarrow>
      fst (sync_handler N DB_DIR now fs acc body) (data_file N DB_DIR acc) =
        Some (stringify_pretty N (new_bundle N DB_DIR now fs acc body)) \<and>
      fs(temp_file N DB_DIR acc \<mapsto> stringify_pretty N (new_bundle N DB_DIR now fs acc body))
        \<in> set (states_before_end N DB_DIR now fs acc body)) \<and>
   (status (snd (sync_handler N DB_DIR now fs acc body)) \<noteq> 200 \<longrightarrow>
      fst (sync_handler N DB_DIR now fs acc body) (data_file N DB_DIR acc) =
        fs (data_file N DB_DIR acc))"
proof -
  let ?content = "stringify_pretty N (new_bundle N DB_DIR now fs acc body)"
  let ?tmp = "temp_file N DB_DIR acc"
  let ?dat = "data_file N DB_DIR acc"
  have ne: "?dat \<noteq> ?tmp" using temp_not_data [of N DB_DIR acc] by simp
  from sync_handler_run_cases [where N = N and fs = fs and DB_DIR = DB_DIR and acc = acc and now = now and body = body]
  consider
    (threw) written where "writeFileSync N fs ?tmp ?content = (written, False)"
      "sync_handler_run N DB_DIR now fs acc body = (written, server_error)"
  | (refused) written where "writeFileSync N fs ?tmp ?content = (written, True)"
      "sync_handler_run N DB_DIR now fs acc body = (written, server_error)"
  | (renamed) written res where "writeFileSync N fs ?tmp ?content = (written, True)"
      "status res = 200"
      "sync_handler_run N DB_DIR now fs acc body =
         (written @ [(fs(?tmp := None))(?dat \<mapsto> ?content)], res)"
    by blast
  then show ?thesis
  proof cases
    case threw
    have all: "st ?dat = fs ?dat" if "st \<in> set (fs # written)" for st
      using writeFileSync_other [OF threw(1) that ne] .
    have "st ?dat = fs ?dat" if "st \<in> set (butlast (fs # written))" for st
      using all in_set_butlastD [OF that] by blast
    moreover have "last (fs # written) ?dat = fs ?dat"
      by (rule all) (rule last_in_set, simp)
    ultimately show ?thesis
      using threw(2) by (simp add: states_before_end_def sync_handler_def server_error_def)
  next
    case refused
    have all: "st ?dat = fs ?dat" if "st \<in> set (fs # written)" for st
      using writeFileSync_other [OF refused(1) that ne] .
    have "st ?dat = fs ?dat" if "st \<in> set (butlast (fs # written))" for st
      using all in_set_butlastD [OF that] by blast
    moreover have "last (fs # written) ?dat = fs ?dat"
      by (rule all) (rule last_in_set, simp)
    ultimately show ?thesis
      using refused(2) by (simp add: states_before_end_def sync_handler_def server_error_def)
  next
    case renamed
    have all: "st ?dat = fs ?dat" if "st \<in> set (fs # written)" for st
      using writeFileSync_other [OF renamed(1) that ne] .
    have w: "written = write_prefixes fs ?tmp ?content (length ?content)"
      using writeFileSync_returned [OF renamed(1)] by simp
    have before: "states_before_end N DB_DIR now fs acc body = fs # written"
      using renamed(3) by (simp add: states_before_end_def butlast_append)
    have "fs(?tmp \<mapsto> ?content) \<in> set (fs # written)"
      using full_write_in_prefixes [of fs ?tmp ?content] w by simp
    then show ?thesis
      using all renamed(2,3) before by (simp add: sync_handler_def)
  qed
qed

text \<open>
  A sync of account \<open>id-1\<close>, whose bundle has count 1: the state with the complete
  temporary file still shows the old bundle, and the handler leaves the new one. A sync
  for the id \<open>nodir/x\<close>, whose write is refused, is answered 500 and changes nothing.
\<close>

theorem put_is_atomic_witness:
  "status (snd (sync_handler demo_node ''secure-data'' ''2025-01-05'' demo_files ''id-1''
     (JObj [(''accountId'', JStr ''id-1'')]))) = 200 \<and>
   demo_files(''secure-data/id-1.json.tmp'' \<mapsto> ''syncCount=2'') \<in>
     set (states_before_end demo_node ''secure-data'' ''2025-01-05'' demo_files ''id-1''
       (JObj [(''accountId'', JStr ''id-1'')])) \<and>
   (demo_files(''secure-data/id-1.json.tmp'' \<mapsto> ''syncCount=2'')) ''secure-data/id-1.json'' =
     Some ''syncCount=1'' \<and>
   fst (sync_handler demo_node ''secure-data'' ''2025-01-05'' demo_files ''id-1''
     (JObj [(''accountId'', JStr ''id-1'')])) ''secure-data/id-1.json'' = Some ''syncCount=2'' \<and>
   status (snd (sync_handler demo_node ''secure-data'' ''2025-01-05'' demo_files ''nodir/x''
     (JObj [(''accountId'', JStr ''nodir/x'')]))) \<noteq> 200 \<and>
   fst (sync_handler demo_node ''secure-data'' ''2025-01-05'' demo_files ''nodir/x''
     (JObj [(''accountId'', JStr ''nodir/x'')])) ''secure-data/nodir/x.json'' = None"
proof -
  have f: "data_file demo_node ''secure-data'' ''id-1'' = ''secure-data/id-1.json''"
    "temp_file demo_node ''secure-data'' ''id-1'' = ''secure-data/id-1.json.tmp''"
    "data_file demo_node ''secure-data'' ''nodir/x'' = ''secure-data/nodir/x.json''"
    "temp_file demo_node ''secure-data'' ''nodir/x'' = ''secure-data/nodir/x.json.tmp''"
    by (simp_all add: temp_file_def data_file_def demo_node_def)
  have c: "next_syncCount demo_node demo_files ''secure-data/id-1.json'' = JNum 2"
    "next_syncCount demo_node demo_files ''secure-data/nodir/x.json'' = JNum 0"
    by (simp_all add: next_syncCount_def demo_files_def demo_node_def or_else_def round_double_def)
  have p: "stringify_pretty demo_node (bundle_of body now (JNum 2)) = ''syncCount=2''" for body now
    by (simp add: demo_node_def bundle_of_def show_nat.simps)
  have w: "fault_of_write demo_node ''secure-data/id-1.json.tmp'' content = No_fault"
    "fault_of_write demo_node ''secure-data/nodir/x.json.tmp'' content = Refused" for content
    by (simp_all add: demo_node_def)
  have ok: "status (snd (sync_handler demo_node ''secure-data'' ''2025-01-05'' demo_files ''id-1''
     (JObj [(''accountId'', JStr ''id-1'')]))) = 200"
    by (simp add: sync_handler_def sync_handler_run_def writeFileSync_def renameSync_def Let_def f c p w)
       (simp add: demo_node_def)
  have bad: "status (snd (sync_handler demo_node ''secure-data'' ''2025-01-05'' demo_files ''nodir/x''
     (JObj [(''accountId'', JStr ''nodir/x'')]))) \<noteq> 200"
    by (simp add: sync_handler_def sync_handler_run_def writeFileSync_def Let_def f c w
        server_error_def)
  show ?thesis
    using ok bad
      put_is_atomic [of demo_node "''secure-data''" "''2025-01-05''" demo_files "''id-1''"
        "JObj [(''accountId'', JStr ''id-1'')]"]
      put_is_atomic [of demo_node "''secure-data''" "''2025-01-05''" demo_files "''nodir/x''"
        "JObj [(''accountId'', JStr ''nodir/x'')]"]
    by (simp add: f c p new_bundle_def) (simp add: demo_files_def)
qed

lemma check_arrays_rejects:
  "ty \<in> set tys \<Longrightarrow> get_prop body ty = Some d \<Longrightarrow> \<not> is_array d \<Longrightarrow>
   \<exists>r. check_arrays body tys = Some r \<and> status r = 400"
  by (induction tys) (auto simp: bad_request_def split: option.splits)

lemma validate_status: "validateSyncData body = Some r \<Longrightarrow> status r = 400"
proof -
  have "check_arrays body tys = Some r \<Longrightarrow> status r = 400" for tys
    by (induction tys) (auto simp: bad_request_def split: option.splits if_splits)
  then show "validateSyncData body = Some r \<Longrightarrow> status r = 400"
    by (auto simp: validateSyncData_def bad_request_def split: option.splits if_splits)
qed

text \<open>
  C9. A request whose \<^verbatim>\<open>accountId\<close> is missing or not a string, or in which one of the five
  fields is present and not an array, is answered with status 400 and leaves every file as
  it was.
\<close>

theorem invalid_sync_rejected:
  assumes "(\<forall>s. get_prop body ''accountId'' \<noteq> Some (JStr s)) \<or>
           (\<exists>ty \<in> set sync_fields. \<exists>d. get_prop body ty = Some d \<and> \<not> is_array d)"
  shows "fst (post_api_sync N DB_DIR now fs body) = fs \<and>
         status (snd (post_api_sync N DB_DIR now fs body)) = 400"
proof -
  have "\<exists>r. validateSyncData body = Some r"
  proof (cases "\<forall>s. get_prop body ''accountId'' \<noteq> Some (JStr s)")
    case True
    have "\<not> is_string a" if "get_prop body ''accountId'' = Some a" for a
      using that True by (cases a) auto
    then show ?thesis
      by (auto simp: validateSyncData_def split: option.splits)
  next
    case False
    with assms obtain ty d where "ty \<in> set sync_fields" "get_prop body ty = Some d" "\<not> is_array d"
      by blast
    from check_arrays_rejects [OF this] show ?thesis
      by (auto simp: validateSyncData_def split: option.splits)
  qed
  then obtain r where r: "validateSyncData body = Some r" by blast
  with validate_status [OF r] show ?thesis
    by (simp add: post_api_sync_def)
qed


text \<open>
  A body without \<^verbatim>\<open>accountId\<close>, and a body whose \<^verbatim>\<open>goals\<close> is an object.
\<close>

theorem invalid_sync_rejected_witness:
  "get_prop (JObj [(''transactions'', JArr [])]) ''accountId'' = None \<and>
   post_api_sync demo_node ''secure-data'' ''2025-01-05'' demo_files
     (JObj [(''transactions'', JArr [])]) =
     (demo_files, bad_request ''Valid accountId required'') \<and>
   get_prop (JObj [(''accountId'', JStr ''id-1''), (''goals'', JObj [])]) ''goals'' = Some (JObj []) \<and>
   post_api_sync demo_node ''secure-data'' ''2025-01-05'' demo_files
     (JObj [(''accountId'', JStr ''id-1''), (''goals'', JObj [])]) =
     (demo_files, bad_request ''goals must be an array'')"
proof -
  have h1: "(\<forall>s. get_prop (JObj [(''transactions'', JArr [])]) ''accountId'' \<noteq> Some (JStr s)) \<or>
      (\<exists>ty \<in> set sync_fields. \<exists>d.
          get_prop (JObj [(''transactions'', JArr [])]) ty = Some d \<and> \<not> is_array d)"
    by simp
  have h2: "(\<forall>s. get_prop (JObj [(''accountId'', JStr ''id-1''), (''goals'', JObj [])]) ''accountId'' \<noteq>
        Some (JStr s)) \<or>
      (\<exists>ty \<in> set sync_fields. \<exists>d.
          get_prop (JObj [(''accountId'', JStr ''id-1''), (''goals'', JObj [])]) ty = Some d \<and>
          \<not> is_array d)"
    by (simp add: sync_fields_def)
  show ?thesis
    using invalid_sync_rejected [OF h1, of demo_node "''secure-data''" "''2025-01-05''" demo_files]
      invalid_sync_rejected [OF h2, of demo_node "''secure-data''" "''2025-01-05''" demo_files]
    by (simp add: post_api_sync_def validateSyncData_def sync_fields_def)
qed











end
